theory Spec2Isabelle
  imports Complex_Main
begin

section \<open>The audio thread of the player: \<^verbatim>\<open>src/video/audioparserunnable.cpp\<close>\<close>

text \<open>
  The file holds two member functions of \<^verbatim>\<open>FFmpegDecoder\<close>: \<^verbatim>\<open>audioParseRunnable\<close>, the
  body of the audio thread, and \<^verbatim>\<open>handleAudioPacket\<close>, which decodes one packet,
  resamples every frame it yields and hands the bytes to the audio player.

  Both call into libavcodec, libswresample, the packet queue, the audio player and the clock.
  None of those is part of the file. The results of their calls are inputs of the model
  (one record per packet, one per frame), and every call that acts on the outside is written
  to a list of events in the order the code makes it. The members of \<^verbatim>\<open>FFmpegDecoder\<close> the
  two functions read and write form the record \<open>decoder\<close>, passed in and returned.
\<close>

subsection \<open>C arithmetic\<close>

text \<open>
  \<^verbatim>\<open>int\<close> is 32 bits wide, \<^verbatim>\<open>int64_t\<close> and \<^verbatim>\<open>size_t\<close> 64 bits. Values are held as HOL
  integers; a signed \<^verbatim>\<open>int\<close> multiplication whose result does not fit is undefined
  behaviour and stops the model, a narrowing conversion wraps, \<^verbatim>\<open>/\<close> truncates towards
  zero and traps on a zero divisor.
\<close>

definition in_int :: "int \<Rightarrow> bool" where
  "in_int x \<longleftrightarrow> - (2 ^ 31) \<le> x \<and> x < 2 ^ 31"

definition to_int :: "int \<Rightarrow> int" where
  "to_int x = (x + 2 ^ 31) mod 2 ^ 32 - 2 ^ 31"

definition to_size_t :: "int \<Rightarrow> nat" where
  "to_size_t x = nat (x mod 2 ^ 64)"

definition c_div :: "int \<Rightarrow> int \<Rightarrow> int" where
  "c_div a b = sgn a * sgn b * (\<bar>a\<bar> div \<bar>b\<bar>)"

text \<open>The largest size a \<^verbatim>\<open>std::vector<uint8_t>\<close> accepts; \<^verbatim>\<open>resize\<close> beyond it throws.\<close>

definition vector_max_size :: nat where
  "vector_max_size = 2 ^ 63 - 1"

text \<open>
  The arithmetic of \<^verbatim>\<open>double\<close> is a parameter of the model: a type \<open>'f\<close> of values and the
  operations the code applies to them, each with the result the machine gives (rounded,
  infinite or not a number where that is so). \<open>d_less x y\<close> is \<^verbatim>\<open>x < y\<close>, and so
  \<^verbatim>\<open>y > x\<close>; \<open>d_of_int\<close> is the conversion of an \<^verbatim>\<open>int\<close> or \<^verbatim>\<open>int64_t\<close> to
  \<^verbatim>\<open>double\<close>; \<open>lit_0_1\<close> and \<open>lit_0_05\<close> are the values of the literals \<^verbatim>\<open>0.1\<close> and
  \<^verbatim>\<open>0.05\<close>. Nothing is assumed of the operations: what is proved holds for every
  arithmetic, that of IEEE 754 binary64 among them.
\<close>

record 'f double_ops =
  d_add :: "'f \<Rightarrow> 'f \<Rightarrow> 'f"
  d_sub :: "'f \<Rightarrow> 'f \<Rightarrow> 'f"
  d_mul :: "'f \<Rightarrow> 'f \<Rightarrow> 'f"
  d_div :: "'f \<Rightarrow> 'f \<Rightarrow> 'f"
  d_neg :: "'f \<Rightarrow> 'f"
  d_fabs :: "'f \<Rightarrow> 'f"
  d_less :: "'f \<Rightarrow> 'f \<Rightarrow> bool"
  d_of_int :: "int \<Rightarrow> 'f"
  lit_0_1 :: 'f
  lit_0_05 :: 'f

subsection \<open>Data\<close>

text \<open>
  \<^verbatim>\<open>AV_NOPTS_VALUE\<close> is libavutil's \<^verbatim>\<open>(int64_t)UINT64_C(0x8000000000000000)\<close>.
\<close>

definition AV_NOPTS_VALUE :: int where
  "AV_NOPTS_VALUE = - (2 ^ 63)"

record AVPacket =
  pts :: int
  size :: int
  stream_index :: int

text \<open>A stream: its index and its time base \<^verbatim>\<open>num / den\<close>.\<close>

record AVStream =
  index :: int
  time_base_num :: int
  time_base_den :: int

text \<open>libavutil's \<^verbatim>\<open>av_q2d\<close> of the time base: \<^verbatim>\<open>a.num / (double) a.den\<close>.\<close>

definition av_q2d :: "'f double_ops \<Rightarrow> AVStream \<Rightarrow> 'f" where
  "av_q2d fp s = d_div fp (d_of_int fp (time_base_num s)) (d_of_int fp (time_base_den s))"

text \<open>
  The fields of \<^verbatim>\<open>AVFrame\<close> the code reads. \<open>extended_data\<close> is \<open>None\<close> for a null
  \<^verbatim>\<open>extended_data\<close> pointer and otherwise the address of its first plane; \<open>data0\<close> is
  \<^verbatim>\<open>data[0]\<close>. \<open>fr_channels\<close> is what \<^verbatim>\<open>av_frame_get_channels\<close> returns. The channel
  layout is held as the \<^verbatim>\<open>int64_t\<close> the code compares.
\<close>

record AVFrame =
  nb_samples :: int
  sample_rate :: int
  fr_format :: int
  fr_channels :: int
  fr_channel_layout :: int
  extended_data :: "nat option"
  data0 :: nat

text \<open>The type of \<^verbatim>\<open>m_audioSettings\<close> (the target format) and \<^verbatim>\<open>m_audioCurrentPref\<close>.\<close>

record AudioParams =
  frequency :: int
  channels :: int
  channel_layout :: int
  format :: int

text \<open>
  A conversion context: the source parameters it was allocated for, and whether its last
  \<^verbatim>\<open>swr_init\<close> succeeded.
\<close>

record SwrContext =
  in_ch_layout :: int
  in_sample_fmt :: int
  in_sample_rate :: int
  is_initialized :: bool

text \<open>
  The pure functions of libavutil the code calls, taken as parameters:
  \<open>av_samples_get_buffer_size c n f\<close> stands for
  \<^verbatim>\<open>av_samples_get_buffer_size(nullptr, c, n, f, 1)\<close>.
\<close>

record libav =
  av_get_bytes_per_sample :: "int \<Rightarrow> int"
  av_samples_get_buffer_size :: "int \<Rightarrow> int \<Rightarrow> int \<Rightarrow> int"
  av_get_channel_layout_nb_channels :: "int \<Rightarrow> int"
  av_get_default_channel_layout :: "int \<Rightarrow> int"

text \<open>
  The members of \<^verbatim>\<open>FFmpegDecoder\<close> the two functions use, with the arithmetic of
  \<^verbatim>\<open>double\<close> (\<open>fp\<close>) and the library (\<open>lib\<close>) the build is linked with. The two clocks
  are \<^verbatim>\<open>std::atomic<double>\<close>; each compare-and-swap loop is the atomic addition it
  amounts to when no other thread writes in between. \<open>assert_enabled\<close> says whether the
  build keeps \<^verbatim>\<open>assert\<close> (no \<^verbatim>\<open>NDEBUG\<close>).
\<close>

record 'f decoder =
  fp :: "'f double_ops"
  lib :: libav
  assert_enabled :: bool
  streams :: "AVStream list"
  m_audioStream :: AVStream
  m_audioSettings :: AudioParams
  m_audioCurrentPref :: AudioParams
  m_audioSwrContext :: "SwrContext option"
  m_videoStartClock :: 'f
  m_audioPTS :: 'f
  m_audioPaused :: bool

text \<open>What \<^verbatim>\<open>WriteAudio\<close> is given: the frame's own bytes or the scratch buffer.\<close>

datatype audio_buffer = FrameData nat | ResampleBuffer

datatype 'f event =
    Log string
  | InitializeThread
  | DeinitializeThread
  | WaveOutPause
  | WaveOutRestart
  | QueuePop AVPacket
  | PacketUnref AVPacket
  | StoreAudioPTS 'f
  | StoreSeekingWhilePaused bool
  | AppendFrameClock 'f
  | AvcodecClose
  | ParametersToContext int
  | FindDecoder
  | AvcodecOpen2
  | SendPacket AVPacket
  | ReceiveFrame AVFrame
  | SwrFree
  | SwrAllocSetOpts int int int
  | SwrInit
  | ResizeBuffer nat
  | SwrConvert bool int int
  | AddVideoStartClock 'f
  | WriteAudio audio_buffer int
  | AddAudioPTS 'f

text \<open>
  The ways the model stops before the code's own control flow ends: a trap or undefined
  behaviour, a failed \<^verbatim>\<open>assert\<close>, and the C++ exceptions \<^verbatim>\<open>std::length_error\<close> and
  \<^verbatim>\<open>boost::thread_interrupted\<close>.
\<close>

datatype halt =
    DivideByZero
  | SignedOverflow
  | BadStreamIndex
  | AssertionFailed
  | LengthError
  | ThreadInterrupted

text \<open>
  What the calls made for one decoded frame return: the frame
  \<^verbatim>\<open>avcodec_receive_frame\<close> filled, whether \<^verbatim>\<open>swr_alloc_set_opts\<close> gave a context, the
  results of \<^verbatim>\<open>swr_init\<close> (line 204 and line 251) and \<^verbatim>\<open>swr_convert\<close>, the clock
  \<^verbatim>\<open>GetHiResTime()\<close>, \<^verbatim>\<open>interruption_requested()\<close> and \<^verbatim>\<open>WriteAudio\<close>.
\<close>

record 'f frame_io =
  frame :: AVFrame
  swr_alloc_ok :: bool
  swr_init_ret :: int
  swr_convert_ret :: int
  swr_reinit_ret :: int
  hires_time :: 'f
  interruption_requested :: bool
  write_audio_ret :: bool

subsection \<open>The two helpers of the anonymous namespace\<close>

definition getAudioData :: "AVFrame \<Rightarrow> nat" where
  "getAudioData audioFrame =
     (case extended_data audioFrame of Some p \<Rightarrow> p | None \<Rightarrow> data0 audioFrame)"

definition getChannelLayout :: "libav \<Rightarrow> AVFrame \<Rightarrow> int" where
  "getChannelLayout l audioFrame =
     (let audioFrameChannels = fr_channels audioFrame in
      if fr_channel_layout audioFrame \<noteq> 0 \<and>
         audioFrameChannels = av_get_channel_layout_nb_channels l (fr_channel_layout audioFrame)
      then fr_channel_layout audioFrame
      else av_get_default_channel_layout l audioFrameChannels)"

subsection \<open>\<^verbatim>\<open>handleAudioPacket\<close>: one frame\<close>

text \<open>Lines 193 to 213: is a new conversion context required?\<close>

definition swr_required :: "'f decoder \<Rightarrow> AVFrame \<Rightarrow> bool" where
  "swr_required d f \<longleftrightarrow>
     fr_format f \<noteq> format (m_audioCurrentPref d) \<or>
     getChannelLayout (lib d) f \<noteq> channel_layout (m_audioCurrentPref d) \<or>
     sample_rate f \<noteq> frequency (m_audioCurrentPref d)"

definition update_swr :: "'f decoder \<Rightarrow> 'f frame_io \<Rightarrow> 'f decoder \<times> 'f event list" where
  "update_swr d io =
     (let f = frame io; dec_channel_layout = getChannelLayout (lib d) f in
      if swr_required d f then
        let ctx = (if swr_alloc_ok io
                   then Some \<lparr>in_ch_layout = dec_channel_layout, in_sample_fmt = fr_format f,
                              in_sample_rate = sample_rate f,
                              is_initialized = (0 \<le> swr_init_ret io)\<rparr>
                   else None);
            failed = (\<not> swr_alloc_ok io \<or> swr_init_ret io < 0)
        in (d\<lparr>m_audioSwrContext := ctx,
               m_audioCurrentPref := \<lparr>frequency = sample_rate f, channels = fr_channels f,
                                       channel_layout = dec_channel_layout,
                                       format = fr_format f\<rparr>\<rparr>,
            [SwrFree, SwrAllocSetOpts dec_channel_layout (fr_format f) (sample_rate f)] @
            (if swr_alloc_ok io then [SwrInit] else []) @
            (if failed then [Log ''unable to initialize swr convert context''] else []))
      else (d, []))"

text \<open>
  Lines 215 to 258, entered when \<^verbatim>\<open>m_audioSwrContext\<close> is not null. The result is what the
  loop does next: \<open>Inl None\<close> is the \<^verbatim>\<open>break\<close> after a failed \<^verbatim>\<open>swr_convert\<close>,
  \<open>Inl (Some h)\<close> a stop of the model, and \<open>Inr (write_size, buffer_size)\<close> the normal
  exit, with the bytes now in the scratch buffer. The scratch buffer is held as its length.
\<close>

definition out_count_of :: "'f decoder \<Rightarrow> AVFrame \<Rightarrow> int" where
  "out_count_of d f =
     to_int (c_div (nb_samples f * frequency (m_audioSettings d)) (sample_rate f) + 256)"

definition size_multiplier_of :: "'f decoder \<Rightarrow> int" where
  "size_multiplier_of d =
     channels (m_audioSettings d) * av_get_bytes_per_sample (lib d) (format (m_audioSettings d))"

definition resample ::
  "'f decoder \<Rightarrow> SwrContext \<Rightarrow> nat \<Rightarrow> 'f frame_io \<Rightarrow>
     (halt option + int \<times> nat) \<times> 'f decoder \<times> nat \<times> 'f event list" where
  "resample d ctx resampleBuffer io =
     (let f = frame io in
      if sample_rate f = 0 then (Inl (Some DivideByZero), d, resampleBuffer, [])
      else
        let out_count = out_count_of d f;
            size_multiplier = size_multiplier_of d
        in
        if \<not> in_int size_multiplier \<or> \<not> in_int (out_count * size_multiplier)
        then (Inl (Some SignedOverflow), d, resampleBuffer, [])
        else
          let buffer_size = to_size_t (out_count * size_multiplier) in
          if resampleBuffer < buffer_size \<and> vector_max_size < buffer_size
          then (Inl (Some LengthError), d, resampleBuffer, [])
          else
            let grown = (if resampleBuffer < buffer_size then buffer_size else resampleBuffer);
                ev1 = (if resampleBuffer < buffer_size then [ResizeBuffer buffer_size] else []) @
                      [SwrConvert (is_initialized ctx) out_count (nb_samples f)];
                converted_size = swr_convert_ret io
            in
            if converted_size < 0
            then (Inl None, d, grown, ev1 @ [Log ''swr_convert() failed''])
            else
              let d' = (if converted_size = out_count
                        then d\<lparr>m_audioSwrContext :=
                                 Some (ctx\<lparr>is_initialized := (0 \<le> swr_reinit_ret io)\<rparr>)\<rparr>
                        else d);
                  ev2 = (if converted_size = out_count
                         then [Log ''audio buffer is probably too small'', SwrInit] else [])
              in
              if \<not> in_int (converted_size * size_multiplier)
              then (Inl (Some SignedOverflow), d', grown, ev1 @ ev2)
              else
                let write_size = converted_size * size_multiplier in
                if assert_enabled d \<and> \<not> to_size_t write_size < buffer_size
                then (Inl (Some AssertionFailed), d', grown, ev1 @ ev2)
                else (Inr (write_size, buffer_size), d', grown, ev1 @ ev2))"

text \<open>Lines 260 to 269: the correction of the playback start clock.\<close>

definition sync_delta :: "'f decoder \<Rightarrow> 'f \<Rightarrow> 'f" where
  "sync_delta d now = d_sub (fp d) (d_add (fp d) (m_videoStartClock d) (m_audioPTS d)) now"

definition audio_sync :: "'f decoder \<Rightarrow> 'f \<Rightarrow> 'f decoder \<times> 'f event list" where
  "audio_sync d now =
     (let delta = sync_delta d now in
      if d_less (fp d) (lit_0_1 (fp d)) (d_fabs (fp d) delta) then
        let correction = (if d_less (fp d) delta (d_of_int (fp d) 0)
                          then lit_0_05 (fp d) else d_neg (fp d) (lit_0_05 (fp d)))
        in (d\<lparr>m_videoStartClock := d_add (fp d) (m_videoStartClock d) correction\<rparr>,
            [AddVideoStartClock correction])
      else (d, []))"

text \<open>
  Lines 271 to 291: delivery to the audio player. \<open>Inl None\<close> is \<^verbatim>\<open>return false\<close>,
  \<open>Inr ()\<close> the end of the loop body. The divisor of line 282 is a product of three
  \<^verbatim>\<open>int\<close>s, converted to \<^verbatim>\<open>double\<close> for the division.
\<close>

definition frame_clock_divisor :: "libav \<Rightarrow> AVFrame \<Rightarrow> int" where
  "frame_clock_divisor l f =
     fr_channels f * sample_rate f * av_get_bytes_per_sample l (fr_format f)"

definition deliver ::
  "'f decoder \<Rightarrow> 'f frame_io \<Rightarrow> int \<Rightarrow> audio_buffer \<Rightarrow> int \<Rightarrow>
     (halt option + unit) \<times> 'f decoder \<times> 'f event list" where
  "deliver d io original_buffer_size write_data write_size =
     (let f = frame io in
      if write_size > 0 then
        if interruption_requested io then (Inl None, d, [])
        else if \<not> write_audio_ret io \<and> sample_rate f \<noteq> 0 then
          if \<not> in_int (fr_channels f * sample_rate f) \<or> \<not> in_int (frame_clock_divisor (lib d) f)
          then (Inl (Some SignedOverflow), d, [WriteAudio write_data write_size])
          else
            let frame_clock = d_div (fp d) (d_of_int (fp d) original_buffer_size)
                                (d_of_int (fp d) (frame_clock_divisor (lib d) f))
            in (Inr (), d\<lparr>m_audioPTS := d_add (fp d) (m_audioPTS d) frame_clock\<rparr>,
                [WriteAudio write_data write_size, AddAudioPTS frame_clock])
        else (Inr (), d, [WriteAudio write_data write_size])
      else (Inr (), d, []))"

datatype control = NextFrame | BreakLoop | ReturnFalse | Halt halt

definition ctl :: "halt option \<Rightarrow> control \<Rightarrow> control" where
  "ctl h c = (case h of None \<Rightarrow> c | Some x \<Rightarrow> Halt x)"

text \<open>
  The body of the \<^verbatim>\<open>while\<close> loop up to the delivery, lines 175 to 269, for one received
  frame. \<open>Inl c\<close> says how the loop goes on when line 271 is not reached (the
  \<^verbatim>\<open>continue\<close> of line 177, the \<^verbatim>\<open>break\<close> of line 245, a stop of the model);
  \<open>Inr (write_data, write_size, original_buffer_size)\<close> is what reaches line 271.
\<close>

definition before_delivery ::
  "'f decoder \<Rightarrow> nat \<Rightarrow> 'f frame_io \<Rightarrow>
     (control + audio_buffer \<times> int \<times> int) \<times> 'f decoder \<times> nat \<times> 'f event list" where
  "before_delivery d resampleBuffer io =
     (let f = frame io in
      if nb_samples f \<le> 0 then (Inl NextFrame, d, resampleBuffer, [])
      else
        let original_buffer_size =
              av_samples_get_buffer_size (lib d) (fr_channels f) (nb_samples f) (fr_format f);
            (d1, ev1) = update_swr d io
        in
        case m_audioSwrContext d1 of
          None \<Rightarrow>
            let (d3, ev3) = audio_sync d1 (hires_time io) in
            (Inr (FrameData (getAudioData f), original_buffer_size, original_buffer_size),
             d3, resampleBuffer, ev1 @ ev3)
        | Some ctx \<Rightarrow>
            (case resample d1 ctx resampleBuffer io of
               (Inl h, d2, buf, ev2) \<Rightarrow> (Inl (ctl h BreakLoop), d2, buf, ev1 @ ev2)
             | (Inr (write_size, _), d2, buf, ev2) \<Rightarrow>
                 let (d3, ev3) = audio_sync d2 (hires_time io) in
                 (Inr (ResampleBuffer, write_size, original_buffer_size),
                  d3, buf, ev1 @ ev2 @ ev3)))"

text \<open>The whole body of the loop, lines 175 to 291.\<close>

definition handle_frame ::
  "'f decoder \<Rightarrow> nat \<Rightarrow> 'f frame_io \<Rightarrow> control \<times> 'f decoder \<times> nat \<times> 'f event list" where
  "handle_frame d resampleBuffer io =
     (case before_delivery d resampleBuffer io of
        (Inl c, d', buf, ev) \<Rightarrow> (c, d', buf, ev)
      | (Inr (write_data, write_size, original_buffer_size), d', buf, ev) \<Rightarrow>
          (case deliver d' io original_buffer_size write_data write_size of
             (Inl h, d'', ev') \<Rightarrow> (ctl h ReturnFalse, d'', buf, ev @ ev')
           | (Inr _, d'', ev') \<Rightarrow> (NextFrame, d'', buf, ev @ ev')))"

subsection \<open>\<^verbatim>\<open>handleAudioPacket\<close>\<close>

text \<open>
  What the calls made for one packet return: the three calls that reopen the decoder on
  a stream switch, \<^verbatim>\<open>avcodec_send_packet\<close>, and the frames
  \<^verbatim>\<open>avcodec_receive_frame\<close> yields with result 0 before its first other result, each
  with the results of the calls made for it.
\<close>

record 'f packet_io =
  parameters_to_context_ret :: int
  find_decoder_ok :: bool
  avcodec_open2_ret :: int
  send_packet_ret :: int
  received_frames :: "'f frame_io list"

text \<open>
  The \<^verbatim>\<open>while\<close> loop of lines 173 to 292 and the \<^verbatim>\<open>return true\<close> after it.
  \<open>Inr b\<close> is the value \<^verbatim>\<open>handleAudioPacket\<close> returns.
\<close>

fun receive_frames ::
  "'f decoder \<Rightarrow> nat \<Rightarrow> 'f frame_io list \<Rightarrow> (halt + bool) \<times> 'f decoder \<times> nat \<times> 'f event list" where
  "receive_frames d resampleBuffer [] = (Inr True, d, resampleBuffer, [])"
| "receive_frames d resampleBuffer (io # ios) =
     (case handle_frame d resampleBuffer io of
        (NextFrame, d', buf, ev) \<Rightarrow>
          (case receive_frames d' buf ios of
             (r, d'', buf', ev') \<Rightarrow> (r, d'', buf', ReceiveFrame (frame io) # ev @ ev'))
      | (BreakLoop, d', buf, ev) \<Rightarrow> (Inr True, d', buf, ReceiveFrame (frame io) # ev)
      | (ReturnFalse, d', buf, ev) \<Rightarrow> (Inr False, d', buf, ReceiveFrame (frame io) # ev)
      | (Halt h, d', buf, ev) \<Rightarrow> (Inl h, d', buf, ReceiveFrame (frame io) # ev))"

text \<open>
  The loop runs through all of the given frames without leaving (no \<^verbatim>\<open>break\<close>, no
  \<^verbatim>\<open>return\<close>, no stop) and stands before the next call of \<^verbatim>\<open>avcodec_receive_frame\<close>:
  the state it has reached and the events so far.
\<close>

fun frames_pass ::
  "'f decoder \<Rightarrow> nat \<Rightarrow> 'f frame_io list \<Rightarrow> ('f decoder \<times> nat \<times> 'f event list) option" where
  "frames_pass d resampleBuffer [] = Some (d, resampleBuffer, [])"
| "frames_pass d resampleBuffer (io # ios) =
     (case handle_frame d resampleBuffer io of
        (NextFrame, d', buf, ev) \<Rightarrow>
          (case frames_pass d' buf ios of
             None \<Rightarrow> None
           | Some (d'', buf', ev') \<Rightarrow> Some (d'', buf', ReceiveFrame (frame io) # ev @ ev'))
      | _ \<Rightarrow> None)"

text \<open>
  Lines 153 to 167: the packet belongs to another stream. \<open>Inl None\<close> is
  \<^verbatim>\<open>return false\<close>. The three calls are joined by \<^verbatim>\<open>||\<close>, so a failing one hides the
  later ones. An index outside \<^verbatim>\<open>m_formatContext->streams\<close> is undefined behaviour.
\<close>

definition switch_stream ::
  "'f decoder \<Rightarrow> AVPacket \<Rightarrow> 'f packet_io \<Rightarrow> (halt option + unit) \<times> 'f decoder \<times> 'f event list" where
  "switch_stream d packet pio =
     (let i = stream_index packet in
      if i \<noteq> index (m_audioStream d) then
        if i < 0 \<or> int (length (streams d)) \<le> i
        then (Inl (Some BadStreamIndex), d, [AvcodecClose])
        else
          let d' = d\<lparr>m_audioStream := streams d ! nat i\<rparr> in
          if parameters_to_context_ret pio < 0
          then (Inl None, d', [AvcodecClose, ParametersToContext i])
          else if \<not> find_decoder_ok pio
          then (Inl None, d', [AvcodecClose, ParametersToContext i, FindDecoder])
          else if avcodec_open2_ret pio < 0
          then (Inl None, d', [AvcodecClose, ParametersToContext i, FindDecoder, AvcodecOpen2])
          else (Inr (), d', [AvcodecClose, ParametersToContext i, FindDecoder, AvcodecOpen2])
      else (Inr (), d, []))"

definition handleAudioPacket ::
  "'f decoder \<Rightarrow> AVPacket \<Rightarrow> nat \<Rightarrow> 'f packet_io \<Rightarrow>
     (halt + bool) \<times> 'f decoder \<times> nat \<times> 'f event list" where
  "handleAudioPacket d packet resampleBuffer pio =
     (case switch_stream d packet pio of
        (Inl None, d', ev) \<Rightarrow> (Inr False, d', resampleBuffer, ev)
      | (Inl (Some h), d', ev) \<Rightarrow> (Inl h, d', resampleBuffer, ev)
      | (Inr _, d', ev) \<Rightarrow>
          if send_packet_ret pio < 0
          then (Inr False, d', resampleBuffer, ev @ [SendPacket packet])
          else
            (case receive_frames d' resampleBuffer (received_frames pio) of
               (r, d'', buf, ev') \<Rightarrow> (r, d'', buf, ev @ [SendPacket packet] @ ev')))"

subsection \<open>\<^verbatim>\<open>audioParseRunnable\<close>\<close>

text \<open>
  The local variables of the thread function. \<^verbatim>\<open>packet\<close> is declared without a value;
  its first content is a parameter of the model.
\<close>

record locals =
  packet :: AVPacket
  initialized :: bool
  handlePacketPostponed :: bool
  resampleBuffer :: nat

text \<open>
  \<^verbatim>\<open>m_isPaused\<close> and \<^verbatim>\<open>m_isAudioSeekingWhilePaused\<close> are written by other threads
  at any time, so every read of them is an input. One round of the inner loop (lines 84 to
  132) reads: the result of \<^verbatim>\<open>pop\<close> (\<open>None\<close> when it returns false), the seeking flag
  at line 108, the results of the calls of \<^verbatim>\<open>handleAudioPacket\<close>, and both flags at
  line 128.
\<close>

record 'f burst_io =
  popped :: "AVPacket option"
  seeking_at_init :: bool
  handle_io :: "'f packet_io"
  paused_after :: bool
  seeking_after :: bool

text \<open>
  One round of the outer loop (lines 47 to 136) reads: both flags at line 49; in the pause
  branch, whether \<^verbatim>\<open>interruption_point()\<close> throws and whether the wait on the condition
  variable is interrupted (it returns once \<^verbatim>\<open>m_isPaused\<close> is false otherwise); then the
  seeking flag at lines 67 and 76, the calls of \<^verbatim>\<open>handleAudioPacket\<close> for a postponed
  packet, the rounds of the inner loop, and whether the \<^verbatim>\<open>interruption_point()\<close> of line
  135 throws.
\<close>

record 'f pass_io =
  paused_top :: bool
  seeking_top :: bool
  interrupt_in_pause :: bool
  wait_interrupted :: bool
  seeking_at_restart :: bool
  seeking_at_postponed :: bool
  postponed_io :: "'f packet_io"
  burst :: "'f burst_io list"
  interrupt_at_end :: bool

text \<open>
  How the inner loop ends: with a \<^verbatim>\<open>break\<close>, with the \<^verbatim>\<open>return\<close> of line 102, with
  a stop of the model, or with the inputs used up while the loop still runs.
\<close>

datatype burst_end = BurstBreak | BurstReturn | BurstHalt halt | BurstOpen

text \<open>
  Lines 92 to 115, entered while \<^verbatim>\<open>initialized\<close> is false. \<open>Inl e\<close> leaves the inner
  loop. The product of line 96 is one of two \<^verbatim>\<open>double\<close>s, \<^verbatim>\<open>packet.pts\<close> converted.

  Modelled from the spec: \<^verbatim>\<open>FFmpegDecoder::AppendFrameClock\<close> is declared in
  \<^verbatim>\<open>ffmpegdecoder.h\<close> and defined in another file. The specification says of the
  baseline that it triggers a notification to dependent clock listeners that a new audio
  position baseline is available; the call \<^verbatim>\<open>AppendFrameClock(0)\<close> is the event
  \<open>AppendFrameClock\<close> with the \<^verbatim>\<open>double\<close> of 0 and leaves the members held in
  \<open>decoder\<close> as they are.
\<close>

definition first_packet ::
  "'f decoder \<Rightarrow> locals \<Rightarrow> 'f burst_io \<Rightarrow>
     (burst_end + unit) \<times> 'f decoder \<times> locals \<times> 'f event list" where
  "first_packet d l b =
     (if pts (packet l) \<noteq> AV_NOPTS_VALUE then
        let pts' = d_mul (fp d) (av_q2d (fp d) (m_audioStream d)) (d_of_int (fp d) (pts (packet l)));
            d' = d\<lparr>m_audioPTS := pts'\<rparr>
        in
        if seeking_at_init b
        then (Inl BurstBreak, d', l\<lparr>handlePacketPostponed := True\<rparr>,
              [StoreAudioPTS pts', AppendFrameClock (d_of_int (fp d) 0),
               StoreSeekingWhilePaused False])
        else (Inr (), d', l, [StoreAudioPTS pts', AppendFrameClock (d_of_int (fp d) 0)])
      else if assert_enabled d then (Inl (BurstHalt AssertionFailed), d, l, [])
      else (Inl BurstReturn, d, l, []))"

text \<open>
  Lines 117 to 131 for the packet in \<^verbatim>\<open>packet\<close>: \<open>Inl e\<close> leaves the inner loop,
  \<open>Inr ()\<close> goes on with the next \<^verbatim>\<open>pop\<close>.
\<close>

definition handle_popped ::
  "'f decoder \<Rightarrow> locals \<Rightarrow> 'f burst_io \<Rightarrow>
     (burst_end + unit) \<times> 'f decoder \<times> locals \<times> 'f event list" where
  "handle_popped d l b =
     (let l2 = l\<lparr>initialized := True\<rparr> in
      if size (packet l) = 0 then (Inl BurstBreak, d, l2, [Log ''Packet size = 0''])
      else
        (case handleAudioPacket d (packet l) (resampleBuffer l2) (handle_io b) of
           (Inl h, d2, buf, ev2) \<Rightarrow> (Inl (BurstHalt h), d2, l2\<lparr>resampleBuffer := buf\<rparr>, ev2)
         | (Inr handled, d2, buf, ev2) \<Rightarrow>
             ((if \<not> handled \<or> paused_after b \<and> \<not> seeking_after b
               then Inl BurstBreak else Inr ()),
              d2, l2\<lparr>resampleBuffer := buf\<rparr>, ev2 @ [PacketUnref (packet l)])))"

text \<open>The inner loop, lines 84 to 132.\<close>

fun consume ::
  "'f decoder \<Rightarrow> locals \<Rightarrow> 'f burst_io list \<Rightarrow> burst_end \<times> 'f decoder \<times> locals \<times> 'f event list" where
  "consume d l [] = (BurstOpen, d, l, [])"
| "consume d l (b # bs) =
     (case popped b of
        None \<Rightarrow> (BurstBreak, d, l, [])
      | Some p \<Rightarrow>
          (case (if \<not> initialized l then first_packet d (l\<lparr>packet := p\<rparr>) b
                 else (Inr (), d, l\<lparr>packet := p\<rparr>, [])) of
             (Inl e, d1, l1, ev1) \<Rightarrow> (e, d1, l1, QueuePop p # ev1)
           | (Inr _, d1, l1, ev1) \<Rightarrow>
               (case handle_popped d1 l1 b of
                  (Inl e, d2, l2, ev2) \<Rightarrow> (e, d2, l2, QueuePop p # ev1 @ ev2)
                | (Inr _, d2, l2, ev2) \<Rightarrow>
                    (case consume d2 l2 bs of
                       (e, d3, l3, ev3) \<Rightarrow> (e, d3, l3, QueuePop p # ev1 @ ev2 @ ev3)))))"

text \<open>
  How the thread function ends: with the \<^verbatim>\<open>return\<close> of line 102, with an exception that
  the handler of line 138 rethrows, with a stop of the model that is no C++ exception (the
  process traps or aborts), or with the inputs used up while the loop still runs.
\<close>

datatype thread_end = Returned | Rethrown halt | Stopped halt | StillRunning

definition is_exception :: "halt \<Rightarrow> bool" where
  "is_exception h \<longleftrightarrow> h = LengthError \<or> h = ThreadInterrupted"

text \<open>Lines 138 to 146, for a stop \<open>h\<close> raised inside the \<^verbatim>\<open>try\<close> block.\<close>

definition on_halt :: "locals \<Rightarrow> halt \<Rightarrow> thread_end \<times> 'f event list" where
  "on_halt l h =
     (if is_exception h
      then (Rethrown h,
            (if handlePacketPostponed l then [PacketUnref (packet l)] else []) @
            [Log ''Audio thread interrupted''])
      else (Stopped h, []))"

text \<open>Lines 67 to 71: the output is started again after a pause.\<close>

definition restart_output :: "'f decoder \<Rightarrow> 'f pass_io \<Rightarrow> 'f decoder \<times> 'f event list" where
  "restart_output d p =
     (if m_audioPaused d \<and> \<not> seeking_at_restart p
      then (d\<lparr>m_audioPaused := False\<rparr>, [WaveOutRestart])
      else (d, []))"

text \<open>Lines 73 to 82: the packet whose handling was postponed.\<close>

definition handle_postponed ::
  "'f decoder \<Rightarrow> locals \<Rightarrow> 'f pass_io \<Rightarrow> (halt + unit) \<times> 'f decoder \<times> locals \<times> 'f event list" where
  "handle_postponed d l p =
     (if handlePacketPostponed l then
        let l1 = l\<lparr>handlePacketPostponed := False\<rparr> in
        if \<not> seeking_at_postponed p then
          (case handleAudioPacket d (packet l1) (resampleBuffer l1) (postponed_io p) of
             (Inl h, d', buf, ev) \<Rightarrow> (Inl h, d', l1\<lparr>resampleBuffer := buf\<rparr>, ev)
           | (Inr _, d', buf, ev) \<Rightarrow>
               (Inr (), d', l1\<lparr>resampleBuffer := buf\<rparr>, ev @ [PacketUnref (packet l1)]))
        else (Inr (), d, l1, [PacketUnref (packet l1)])
      else (Inr (), d, l, []))"

text \<open>The outer loop, lines 47 to 136, with the handler of line 138.\<close>

fun run_passes ::
  "'f decoder \<Rightarrow> locals \<Rightarrow> 'f pass_io list \<Rightarrow> thread_end \<times> 'f decoder \<times> locals \<times> 'f event list" where
  "run_passes d l [] = (StillRunning, d, l, [])"
| "run_passes d l (p # ps) =
     (if paused_top p \<and> \<not> seeking_top p then
        let ev0 = (if \<not> m_audioPaused d then [WaveOutPause] else []);
            d0 = d\<lparr>m_audioPaused := True\<rparr>
        in
        if interrupt_in_pause p \<or> wait_interrupted p
        then (case on_halt l ThreadInterrupted of (e, ev) \<Rightarrow> (e, d0, l, ev0 @ ev))
        else (case run_passes d0 l ps of (e, d', l', ev) \<Rightarrow> (e, d', l', ev0 @ ev))
      else
        let (d0, ev0) = restart_output d p in
        case handle_postponed d0 l p of
          (Inl h, d1, l1, ev1) \<Rightarrow>
            (case on_halt l1 h of (e, ev) \<Rightarrow> (e, d1, l1, ev0 @ ev1 @ ev))
        | (Inr _, d1, l1, ev1) \<Rightarrow>
            (case consume d1 l1 (burst p) of
               (BurstOpen, d2, l2, ev2) \<Rightarrow> (StillRunning, d2, l2, ev0 @ ev1 @ ev2)
             | (BurstReturn, d2, l2, ev2) \<Rightarrow> (Returned, d2, l2, ev0 @ ev1 @ ev2)
             | (BurstHalt h, d2, l2, ev2) \<Rightarrow>
                 (case on_halt l2 h of (e, ev) \<Rightarrow> (e, d2, l2, ev0 @ ev1 @ ev2 @ ev))
             | (BurstBreak, d2, l2, ev2) \<Rightarrow>
                 if interrupt_at_end p
                 then (case on_halt l2 ThreadInterrupted of
                         (e, ev) \<Rightarrow> (e, d2, l2, ev0 @ ev1 @ ev2 @ ev))
                 else (case run_passes d2 l2 ps of
                         (e, d3, l3, ev3) \<Rightarrow> (e, d3, l3, ev0 @ ev1 @ ev2 @ ev3))))"

text \<open>
  A round of the outer loop that pops no packet and is not interrupted: the pause branch
  with a wait that returns, or a queue whose \<^verbatim>\<open>pop\<close> returns false at once.
\<close>

definition idle_pass :: "'f pass_io \<Rightarrow> bool" where
  "idle_pass q \<longleftrightarrow>
     (if paused_top q \<and> \<not> seeking_top q
      then \<not> interrupt_in_pause q \<and> \<not> wait_interrupted q
      else (case burst q of [] \<Rightarrow> False | b # _ \<Rightarrow> popped b = None) \<and> \<not> interrupt_at_end q)"

text \<open>
  What the outer loop does to the decoder and to the audio player over such rounds: lines
  51 to 55 in the pause branch, lines 67 to 71 otherwise.
\<close>

fun idle_run :: "'f decoder \<Rightarrow> 'f pass_io list \<Rightarrow> 'f decoder \<times> 'f event list" where
  "idle_run d [] = (d, [])"
| "idle_run d (q # qs) =
     (if paused_top q \<and> \<not> seeking_top q
      then (case idle_run (d\<lparr>m_audioPaused := True\<rparr>) qs of
              (d', ev) \<Rightarrow> (d', (if \<not> m_audioPaused d then [WaveOutPause] else []) @ ev))
      else (case restart_output d q of
              (d0, ev0) \<Rightarrow> (case idle_run d0 qs of (d', ev) \<Rightarrow> (d', ev0 @ ev))))"

text \<open>
  The whole function.

  Modelled from the spec: \<^verbatim>\<open>MakeGuard\<close> comes from \<^verbatim>\<open>makeguard.h\<close>, which is not among the
  files. The specification: a scope-exit guard registered at thread start guarantees that
  the sink's deinitialization hook runs exactly once on every exit path, cancellation and
  failure included. So \<^verbatim>\<open>DeinitializeThread\<close> is the last event when the
  function is left by \<^verbatim>\<open>return\<close> or by an exception, and no event when the process stops.
\<close>

definition audioParseRunnable ::
  "'f decoder \<Rightarrow> AVPacket \<Rightarrow> 'f pass_io list \<Rightarrow> thread_end \<times> 'f decoder \<times> 'f event list" where
  "audioParseRunnable d packet0 ps =
     (case run_passes d \<lparr>packet = packet0, initialized = False,
                          handlePacketPostponed = False, resampleBuffer = 0\<rparr> ps of
        (e, d', l', ev) \<Rightarrow>
          (e, d',
           [Log ''Audio thread started'', InitializeThread] @ ev @
           (case e of Returned \<Rightarrow> [DeinitializeThread]
                    | Rethrown _ \<Rightarrow> [DeinitializeThread]
                    | _ \<Rightarrow> [])))"

subsection \<open>The capacity formula as the specification words it, and as the code computes it\<close>

text \<open>
  The specification: \<^verbatim>\<open>ceil(sourceSampleCount * targetRate / sourceRate) + FIXED_HEADROOM\<close>
  with a headroom of 256 samples. \<open>floor_capacity\<close> is the same formula rounded down.
\<close>

definition spec_capacity :: "int \<Rightarrow> int \<Rightarrow> int \<Rightarrow> int" where
  "spec_capacity sourceSampleCount targetRate sourceRate =
     \<lceil>real_of_int sourceSampleCount * real_of_int targetRate / real_of_int sourceRate\<rceil> + 256"

definition floor_capacity :: "int \<Rightarrow> int \<Rightarrow> int \<Rightarrow> int" where
  "floor_capacity sourceSampleCount targetRate sourceRate =
     \<lfloor>real_of_int sourceSampleCount * real_of_int targetRate / real_of_int sourceRate\<rfloor> + 256"

subsection \<open>Reading a list of events\<close>

text \<open>The source format signature of a frame and the one the decoder has cached.\<close>

definition signature :: "libav \<Rightarrow> AVFrame \<Rightarrow> int \<times> int \<times> int" where
  "signature l f = (fr_format f, getChannelLayout l f, sample_rate f)"

definition cached_signature :: "'f decoder \<Rightarrow> int \<times> int \<times> int" where
  "cached_signature d =
     (format (m_audioCurrentPref d), channel_layout (m_audioCurrentPref d),
      frequency (m_audioCurrentPref d))"

text \<open>How many times a conversion context was built, the corrections made to the playback
  start clock, and the buffers handed to the audio player.\<close>

fun rebuilds :: "'f event list \<Rightarrow> nat" where
  "rebuilds [] = 0"
| "rebuilds (SwrAllocSetOpts l f r # ev) = Suc (rebuilds ev)"
| "rebuilds (e # ev) = rebuilds ev"

fun corrections :: "'f event list \<Rightarrow> 'f list" where
  "corrections [] = []"
| "corrections (AddVideoStartClock c # ev) = c # corrections ev"
| "corrections (e # ev) = corrections ev"

fun writes :: "'f event list \<Rightarrow> (audio_buffer \<times> int) list" where
  "writes [] = []"
| "writes (WriteAudio b n # ev) = (b, n) # writes ev"
| "writes (e # ev) = writes ev"

fun pops :: "'f event list \<Rightarrow> AVPacket list" where
  "pops [] = []"
| "pops (QueuePop p # ev) = p # pops ev"
| "pops (e # ev) = pops ev"

fun frames_received :: "'f event list \<Rightarrow> AVFrame list" where
  "frames_received [] = []"
| "frames_received (ReceiveFrame f # ev) = f # frames_received ev"
| "frames_received (e # ev) = frames_received ev"

text \<open>
  The audio clock after a list of events, from a value before them: a store sets it, an
  addition moves it by the arithmetic \<open>ops\<close>, nothing else touches it.
\<close>

fun replay_pts :: "'f double_ops \<Rightarrow> 'f \<Rightarrow> 'f event list \<Rightarrow> 'f" where
  "replay_pts ops x [] = x"
| "replay_pts ops x (StoreAudioPTS v # ev) = replay_pts ops v ev"
| "replay_pts ops x (AddAudioPTS c # ev) = replay_pts ops (d_add ops x c) ev"
| "replay_pts ops x (e # ev) = replay_pts ops x ev"

fun unrefs :: "'f event list \<Rightarrow> AVPacket list" where
  "unrefs [] = []"
| "unrefs (PacketUnref p # ev) = p # unrefs ev"
| "unrefs (e # ev) = unrefs ev"

subsection \<open>A player to run the model on\<close>

text \<open>
  libavutil on the twelve sample formats and on the mono and stereo layouts:
  the sample sizes of \<^verbatim>\<open>AV_SAMPLE_FMT_U8\<close> (0) to \<^verbatim>\<open>AV_SAMPLE_FMT_S64P\<close> (11), the buffer
  size for alignment 1 with the library's \<^verbatim>\<open>AVERROR(EINVAL)\<close> checks, and
  \<^verbatim>\<open>AV_CH_LAYOUT_MONO\<close> = 4, \<^verbatim>\<open>AV_CH_LAYOUT_STEREO\<close> = 3.
\<close>

definition bytes_per_sample_table :: "int \<Rightarrow> int" where
  "bytes_per_sample_table fmt =
     (if 0 \<le> fmt \<and> fmt < 12 then [1, 2, 4, 4, 8, 1, 2, 4, 4, 8, 8, 8] ! nat fmt else 0)"

definition lib_pcm :: libav where
  "lib_pcm =
     \<lparr>av_get_bytes_per_sample = bytes_per_sample_table,
      av_samples_get_buffer_size =
        (\<lambda>c n fmt.
           let s = bytes_per_sample_table fmt
           in if s = 0 \<or> n \<le> 0 \<or> c \<le> 0 \<or> (2 ^ 31 - 1 - c) div s < c * n then - 22
              else n * s * c),
      av_get_channel_layout_nb_channels = (\<lambda>l. if l = 4 then 1 else if l = 3 then 2 else 0),
      av_get_default_channel_layout = (\<lambda>c. if c = 1 then 4 else if c = 2 then 3 else 0)\<rparr>"

text \<open>
  Exact arithmetic on the real numbers, with the two literals at their binary64 values
  (3602879701896397 / 2^55 and 3602879701896397 / 2^56). It stands in for binary64 in the
  runs below: the clock values of those runs are 0, 1, -1, 1/32 and the two literals, all of
  them binary64 numbers, and binary64 gives the same results on them (the product of
  1/44100 and 44100 is 1 in binary64 as well).
\<close>

definition exact_ops :: "real double_ops" where
  "exact_ops =
     \<lparr>d_add = (+), d_sub = (-), d_mul = (*), d_div = (/), d_neg = uminus, d_fabs = abs,
      d_less = (<), d_of_int = real_of_int,
      lit_0_1 = 3602879701896397 / 36028797018963968,
      lit_0_05 = 3602879701896397 / 72057594037927936\<rparr>"

text \<open>The target format: 48 kHz, stereo, signed 16 bit.\<close>

definition stereo_s16_48k :: AudioParams where
  "stereo_s16_48k = \<lparr>frequency = 48000, channels = 2, channel_layout = 3, format = 1\<rparr>"

text \<open>
  A decoder on stream 0 whose cached source format is the target format and which has no
  conversion context, built with \<^verbatim>\<open>assert\<close> compiled out, and the same in a build that
  keeps it.
\<close>

definition player :: "real decoder" where
  "player =
     \<lparr>fp = exact_ops, lib = lib_pcm, assert_enabled = False,
      streams = [\<lparr>index = 0, time_base_num = 1, time_base_den = 44100\<rparr>,
                 \<lparr>index = 1, time_base_num = 1, time_base_den = 48000\<rparr>],
      m_audioStream = \<lparr>index = 0, time_base_num = 1, time_base_den = 44100\<rparr>,
      m_audioSettings = stereo_s16_48k,
      m_audioCurrentPref = stereo_s16_48k,
      m_audioSwrContext = None,
      m_videoStartClock = 0, m_audioPTS = 0, m_audioPaused = False\<rparr>"

definition debug_player :: "real decoder" where
  "debug_player = player\<lparr>assert_enabled := True\<rparr>"

text \<open>A frame of 1024 samples at 44.1 kHz, stereo, signed 16 bit: 4096 bytes.\<close>

definition frame_44k :: AVFrame where
  "frame_44k =
     \<lparr>nb_samples = 1024, sample_rate = 44100, fr_format = 1, fr_channels = 2,
      fr_channel_layout = 3, extended_data = Some 4096, data0 = 4096\<rparr>"

text \<open>A frame already in the target format.\<close>

definition frame_48k :: AVFrame where
  "frame_48k = frame_44k\<lparr>sample_rate := 48000\<rparr>"

text \<open>
  The calls for \<open>frame_44k\<close> when all goes well: the context is built, the conversion
  gives 1115 samples, the clock reads 0, no interruption is pending and the audio player
  takes the bytes at once.
\<close>

definition io_44k :: "real frame_io" where
  "io_44k =
     \<lparr>frame = frame_44k, swr_alloc_ok = True, swr_init_ret = 0, swr_convert_ret = 1115,
      swr_reinit_ret = 0, hires_time = 0, interruption_requested = False,
      write_audio_ret = True\<rparr>"

text \<open>The same with a conversion that fills all of the 1370 samples it was given room for.\<close>

definition io_44k_full :: "real frame_io" where
  "io_44k_full = io_44k\<lparr>swr_convert_ret := 1370\<rparr>"

text \<open>
  The same with a context that is allocated but whose \<^verbatim>\<open>swr_init\<close> fails; libswresample's
  \<^verbatim>\<open>swr_convert\<close> answers \<^verbatim>\<open>AVERROR(EINVAL)\<close> on a context that is not initialised.
\<close>

definition io_44k_init_fails :: "real frame_io" where
  "io_44k_init_fails = io_44k\<lparr>swr_init_ret := - 22, swr_convert_ret := - 22\<rparr>"

text \<open>The same with no context allocated.\<close>

definition io_44k_alloc_fails :: "real frame_io" where
  "io_44k_alloc_fails = io_44k\<lparr>swr_alloc_ok := False\<rparr>"

text \<open>The calls for the frame that is in the target format already.\<close>

definition io_48k :: "real frame_io" where
  "io_48k = io_44k\<lparr>frame := frame_48k\<rparr>"

text \<open>The context that \<open>io_44k\<close> builds.\<close>

definition ctx_44k :: SwrContext where
  "ctx_44k =
     \<lparr>in_ch_layout = 3, in_sample_fmt = 1, in_sample_rate = 44100, is_initialized = True\<rparr>"

text \<open>The calls for \<open>frame_44k\<close> with the wall clock one second ahead of the audio.\<close>

definition io_44k_late :: "real frame_io" where
  "io_44k_late = io_44k\<lparr>hires_time := 1\<rparr>"

text \<open>
  A frame of 1500 samples in the target format, 6000 bytes or 1/32 s, and the calls for it
  when the audio player does not take the bytes at once.
\<close>

definition frame_48k_long :: AVFrame where
  "frame_48k_long = frame_48k\<lparr>nb_samples := 1500\<rparr>"

definition io_48k_busy :: "real frame_io" where
  "io_48k_busy = io_48k\<lparr>frame := frame_48k_long, write_audio_ret := False\<rparr>"

text \<open>
  The same frame with a sample rate of -48000 and no conversion context allocated for it.
\<close>

definition io_negative_rate :: "real frame_io" where
  "io_negative_rate =
     io_48k_busy\<lparr>frame := frame_48k_long\<lparr>sample_rate := - 48000\<rparr>, swr_alloc_ok := False\<rparr>"

text \<open>The same with an interruption of the thread pending.\<close>

definition io_44k_cancel :: "real frame_io" where
  "io_44k_cancel = io_44k\<lparr>interruption_requested := True\<rparr>"

text \<open>
  Packets: one of stream 0 stamped one second (44100 ticks of 1/44100 s), one of stream 1,
  one of size 0, and one without a presentation time stamp.
\<close>

definition packet_a :: AVPacket where
  "packet_a = \<lparr>pts = 44100, size = 100, stream_index = 0\<rparr>"

definition packet_b :: AVPacket where
  "packet_b = \<lparr>pts = 0, size = 100, stream_index = 1\<rparr>"

definition marker :: AVPacket where
  "marker = \<lparr>pts = 0, size = 0, stream_index = 0\<rparr>"

definition packet_nopts :: AVPacket where
  "packet_nopts = \<lparr>pts = AV_NOPTS_VALUE, size = 100, stream_index = 0\<rparr>"

text \<open>
  The calls for a packet when the decoder takes it and yields the given frames, and when
  no decoder is found for its stream.
\<close>

definition calls_ok :: "real frame_io list \<Rightarrow> real packet_io" where
  "calls_ok ios =
     \<lparr>parameters_to_context_ret = 0, find_decoder_ok = True, avcodec_open2_ret = 0,
      send_packet_ret = 0, received_frames = ios\<rparr>"

definition calls_no_decoder :: "real packet_io" where
  "calls_no_decoder = (calls_ok [])\<lparr>find_decoder_ok := False\<rparr>"

text \<open>
  A round of the inner loop that pops the given packet while nobody pauses or seeks, and a
  round in which \<^verbatim>\<open>pop\<close> returns false.
\<close>

definition round_of :: "AVPacket \<Rightarrow> real packet_io \<Rightarrow> real burst_io" where
  "round_of p pio =
     \<lparr>popped = Some p, seeking_at_init = False, handle_io = pio,
      paused_after = False, seeking_after = False\<rparr>"

definition queue_empty :: "real burst_io" where
  "queue_empty = (round_of marker (calls_ok []))\<lparr>popped := None\<rparr>"

text \<open>
  A round of the outer loop with the given rounds of the inner loop while nobody pauses,
  seeks or interrupts; a round that finds the queue empty and is interrupted at line 135;
  and a round spent in the pause branch.
\<close>

definition pass_of :: "real burst_io list \<Rightarrow> real pass_io" where
  "pass_of bs =
     \<lparr>paused_top = False, seeking_top = False, interrupt_in_pause = False,
      wait_interrupted = False, seeking_at_restart = False, seeking_at_postponed = False,
      postponed_io = calls_ok [], burst = bs, interrupt_at_end = False\<rparr>"

definition cancelled_pass :: "real pass_io" where
  "cancelled_pass = (pass_of [queue_empty])\<lparr>interrupt_at_end := True\<rparr>"

definition paused_pass :: "real pass_io" where
  "paused_pass = (pass_of [])\<lparr>paused_top := True\<rparr>"

text \<open>
  A round of the inner loop that pops the given packet while a seek in pause is under way
  (line 108), and a round of the outer loop that handles the postponed packet with the
  given calls before its inner rounds.
\<close>

definition seeking_round :: "AVPacket \<Rightarrow> real burst_io" where
  "seeking_round p = (round_of p (calls_ok []))\<lparr>seeking_at_init := True\<rparr>"

definition postponed_pass :: "real packet_io \<Rightarrow> real burst_io list \<Rightarrow> real pass_io" where
  "postponed_pass pio bs = (pass_of bs)\<lparr>postponed_io := pio\<rparr>"

text \<open>
  The local variables once \<open>packet_a\<close> has been handled, and when its handling is
  postponed.
\<close>

definition running :: locals where
  "running =
     \<lparr>packet = packet_a, initialized = True, handlePacketPostponed = False,
      resampleBuffer = 0\<rparr>"

definition postponed :: locals where
  "postponed =
     \<lparr>packet = packet_a, initialized = False, handlePacketPostponed = True,
      resampleBuffer = 0\<rparr>"

section \<open>Properties\<close>

subsection \<open>Unfolding the model\<close>

lemmas fixture_defs = player_def debug_player_def exact_ops_def frame_44k_def frame_48k_def
  io_44k_def io_44k_full_def io_44k_init_fails_def io_44k_alloc_fails_def io_48k_def ctx_44k_def
  stereo_s16_48k_def lib_pcm_def bytes_per_sample_table_def

lemmas c_arith_defs = to_int_def c_div_def in_int_def to_size_t_def vector_max_size_def

lemmas frame_defs = handle_frame_def before_delivery_def update_swr_def swr_required_def
  getChannelLayout_def getAudioData_def resample_def out_count_of_def size_multiplier_of_def
  audio_sync_def sync_delta_def deliver_def frame_clock_divisor_def ctl_def

subsection \<open>C arithmetic inside its range\<close>

lemma c_div_pos: "0 \<le> a \<Longrightarrow> 0 < b \<Longrightarrow> c_div a b = a div b"
  by (cases "a = 0") (simp_all add: c_div_def)

lemma to_int_id: "in_int x \<Longrightarrow> to_int x = x"
  by (simp add: to_int_def in_int_def)

lemma to_size_t_small: "0 \<le> x \<Longrightarrow> in_int x \<Longrightarrow> to_size_t x = nat x"
  by (simp add: to_size_t_def in_int_def)

lemma in_int_factors:
  assumes "0 < a" "0 < b" "in_int (a * b)"
  shows "in_int a" and "in_int b"
proof -
  have le1: "a \<le> a * b" using assms(1,2) by (simp add: mult_le_cancel_left1)
  have le2: "b \<le> a * b" using assms(1,2) by (simp add: mult_le_cancel_right1)
  show "in_int a" using le1 assms(1,3) unfolding in_int_def by linarith
  show "in_int b" using le2 assms(2,3) unfolding in_int_def by linarith
qed

subsection \<open>The output capacity and the scratch buffer\<close>

lemma floor_capacity_div: "floor_capacity n t s = (n * t) div s + 256"
proof -
  have "real_of_int n * real_of_int t / real_of_int s = real_of_int (n * t) / real_of_int s"
    by simp
  then show ?thesis
    unfolding floor_capacity_def by (simp only: floor_divide_of_int_eq)
qed

lemma floor_capacity_pos:
  assumes "0 < n" "0 < s" "0 \<le> t"
  shows "0 < floor_capacity n t s"
proof -
  have "0 \<le> (n * t) div s"
    using assms by (simp add: pos_imp_zdiv_nonneg_iff)
  then show ?thesis by (simp add: floor_capacity_div)
qed

lemma out_count_of_floor:
  assumes "0 < nb_samples f" "0 < sample_rate f" "0 \<le> frequency (m_audioSettings d)"
    and "in_int (floor_capacity (nb_samples f) (frequency (m_audioSettings d)) (sample_rate f))"
  shows "out_count_of d f =
           floor_capacity (nb_samples f) (frequency (m_audioSettings d)) (sample_rate f)"
proof -
  have "0 \<le> nb_samples f * frequency (m_audioSettings d)"
    using assms(1,3) by simp
  then have "c_div (nb_samples f * frequency (m_audioSettings d)) (sample_rate f) =
             (nb_samples f * frequency (m_audioSettings d)) div sample_rate f"
    using assms(2) by (rule c_div_pos)
  then show ?thesis
    using assms(4) by (simp add: out_count_of_def floor_capacity_div to_int_id)
qed

text \<open>
  A conversion that returns fewer samples than it was given room for writes fewer bytes
  than the capacity computed for the frame: the \<^verbatim>\<open>assert\<close> of line 257 holds then.
\<close>

lemma resample_below_capacity:
  assumes "resample d ctx buf io = (Inr (write_size, buffer_size), d', buf', ev)"
    and "0 < size_multiplier_of d"
    and "swr_convert_ret io < out_count_of d (frame io)"
  shows "to_size_t write_size < buffer_size"
proof -
  define sm where "sm = size_multiplier_of d"
  define oc where "oc = out_count_of d (frame io)"
  define cv where "cv = swr_convert_ret io"
  from assms(1) have cv0: "0 \<le> cv" and ws: "write_size = cv * sm"
    and bs: "buffer_size = to_size_t (oc * sm)" and r1: "in_int (oc * sm)" and r2: "in_int (cv * sm)"
    by (auto simp: resample_def Let_def sm_def oc_def cv_def split: if_splits)
  have sm0: "0 < sm" using assms(2) by (simp add: sm_def)
  have lt: "cv * sm < oc * sm"
    using assms(3) sm0 by (simp add: cv_def oc_def)
  have nn: "0 \<le> cv * sm" using cv0 sm0 by simp
  then have nn': "0 \<le> oc * sm" using lt by linarith
  have "to_size_t (cv * sm) = nat (cv * sm)" using nn r2 by (rule to_size_t_small)
  moreover have "to_size_t (oc * sm) = nat (oc * sm)" using nn' r1 by (rule to_size_t_small)
  ultimately show ?thesis using lt nn by (simp add: ws bs)
qed

text \<open>
  C1. The claim: after every successful conversion the bytes produced are strictly fewer
  than the byte capacity computed for the frame, also when \<^verbatim>\<open>swr_convert\<close> returns as
  many samples as it was given room for. The code at that input: for the frame of 1024
  samples the capacity is 1370 samples, 5480 bytes. When \<^verbatim>\<open>swr_convert\<close> returns 1370,
  \<^verbatim>\<open>write_size\<close> is 5480 as well: the build that keeps \<^verbatim>\<open>assert\<close> stops at line 257,
  and the build without it hands 5480 bytes out of a buffer of 5480 bytes to the audio
  player.
\<close>

theorem full_conversion_reaches_capacity:
  "fst (handle_frame debug_player 0 io_44k_full) = Halt AssertionFailed \<and>
   writes (snd (snd (snd (handle_frame player 0 io_44k_full)))) = [(ResampleBuffer, 5480)] \<and>
   fst (snd (snd (handle_frame player 0 io_44k_full))) = 5480"
  by (simp add: frame_defs fixture_defs c_arith_defs Let_def)

text \<open>
  C2, as the specification states it: the output capacity is
  \<open>ceil(sourceSampleCount * targetRate / sourceRate) + 256\<close>. For 1024 samples at 44.1 kHz
  and a target of 48 kHz that is 1371; line 219 divides two integers and gets 1370.
\<close>

theorem capacity_rounds_down_counterexample:
  "out_count_of player frame_44k \<noteq> spec_capacity 1024 48000 44100"
  by (simp add: out_count_of_def spec_capacity_def fixture_defs c_arith_defs)

text \<open>
  C2, amended: for a frame with a positive sample count and sample rate, a target format
  with a rate that is not negative and a positive sample size per frame, and a byte count
  that fits an \<^verbatim>\<open>int\<close>, the output capacity is the quotient rounded down plus 256,
  and after lines 215 to 258 the scratch buffer has the larger of its former length and
  capacity times target channels times bytes per target sample: grown to that size when
  smaller, left as it is otherwise.
\<close>

theorem resample_capacity:
  assumes "0 < nb_samples (frame io)" and "0 < sample_rate (frame io)"
    and "0 \<le> frequency (m_audioSettings d)"
    and "0 < size_multiplier_of d"
    and "in_int (floor_capacity (nb_samples (frame io)) (frequency (m_audioSettings d))
                   (sample_rate (frame io)) * size_multiplier_of d)"
  shows "out_count_of d (frame io) =
           floor_capacity (nb_samples (frame io)) (frequency (m_audioSettings d))
             (sample_rate (frame io)) \<and>
         fst (snd (snd (resample d ctx buf io))) =
           max buf
             (nat (floor_capacity (nb_samples (frame io)) (frequency (m_audioSettings d))
                     (sample_rate (frame io)) *
                   channels (m_audioSettings d) *
                   av_get_bytes_per_sample (lib d) (format (m_audioSettings d))))"
proof -
  define cap where "cap = floor_capacity (nb_samples (frame io)) (frequency (m_audioSettings d))
                            (sample_rate (frame io))"
  define sm where "sm = size_multiplier_of d"
  have cap_pos: "0 < cap"
    unfolding cap_def using assms(1,2,3) by (rule floor_capacity_pos)
  have prod: "in_int (cap * sm)" using assms(5) by (simp add: cap_def sm_def)
  have sm_pos: "0 < sm" using assms(4) by (simp add: sm_def)
  have cap_int: "in_int cap" and sm_int: "in_int sm"
    using in_int_factors [OF cap_pos sm_pos prod] by simp_all
  have oc: "out_count_of d (frame io) = cap"
    unfolding cap_def using assms(1,2,3) cap_int [unfolded cap_def] by (rule out_count_of_floor)
  have nonneg: "0 \<le> cap * sm" using cap_pos sm_pos by simp
  have size: "to_size_t (cap * sm) = nat (cap * sm)"
    using nonneg prod by (rule to_size_t_small)
  have small: "\<not> vector_max_size < nat (cap * sm)"
    using prod nonneg by (simp add: in_int_def vector_max_size_def)
  have eq: "cap * sm = cap * channels (m_audioSettings d) *
                   av_get_bytes_per_sample (lib d) (format (m_audioSettings d))"
    by (simp add: sm_def size_multiplier_of_def mult.assoc)
  have "fst (snd (snd (resample d ctx buf io))) = max buf (nat (cap * sm))"
    using assms(2) sm_int prod small
    by (simp add: resample_def oc sm_def [symmetric] size Let_def max_def)
  then have "fst (snd (snd (resample d ctx buf io))) =
               max buf (nat (cap * channels (m_audioSettings d) *
                 av_get_bytes_per_sample (lib d) (format (m_audioSettings d))))"
    by (simp only: eq)
  with oc show ?thesis unfolding cap_def by (rule conjI)
qed

text \<open>
  The frame of 1024 samples at 44.1 kHz: a capacity of 1370 samples, and a scratch buffer
  of 100 bytes grown to 5480.
\<close>

theorem resample_capacity_witness:
  "out_count_of player (frame io_44k) = 1370 \<and>
   fst (snd (snd (resample player ctx_44k 100 io_44k))) = 5480"
proof -
  have fc: "floor_capacity 1024 48000 44100 = 1370"
    by (simp add: floor_capacity_div)
  have h1: "0 < nb_samples (frame io_44k)" by (simp add: fixture_defs)
  have h2: "0 < sample_rate (frame io_44k)" by (simp add: fixture_defs)
  have h3: "0 \<le> frequency (m_audioSettings player)" by (simp add: fixture_defs)
  have h4: "0 < size_multiplier_of player" by (simp add: size_multiplier_of_def fixture_defs)
  have h5: "in_int (floor_capacity (nb_samples (frame io_44k)) (frequency (m_audioSettings player))
                   (sample_rate (frame io_44k)) * size_multiplier_of player)"
    by (simp add: size_multiplier_of_def fixture_defs fc in_int_def)
  show ?thesis
    using resample_capacity [OF h1 h2 h3 h4 h5, of ctx_44k 100]
    by (simp add: fixture_defs fc)
qed

subsection \<open>One frame: what each part of the loop body leaves alone\<close>

lemmas fixture2_defs = io_44k_late_def frame_48k_long_def io_48k_busy_def io_negative_rate_def
  io_44k_cancel_def packet_a_def packet_b_def marker_def packet_nopts_def calls_ok_def
  calls_no_decoder_def round_of_def queue_empty_def pass_of_def cancelled_pass_def
  paused_pass_def seeking_round_def postponed_pass_def running_def postponed_def

lemma tuple4: "x = (fst x, fst (snd x), fst (snd (snd x)), snd (snd (snd x)))"
  by simp

lemma tuple3: "x = (fst x, fst (snd x), snd (snd x))"
  by simp

lemma corrections_append: "corrections (a @ b) = corrections a @ corrections b"
  by (induction a rule: corrections.induct) simp_all

lemma writes_append: "writes (a @ b) = writes a @ writes b"
  by (induction a rule: writes.induct) simp_all

lemma rebuilds_append: "rebuilds (a @ b) = rebuilds a + rebuilds b"
  by (induction a rule: rebuilds.induct) simp_all

lemma frames_received_append: "frames_received (a @ b) = frames_received a @ frames_received b"
  by (induction a rule: frames_received.induct) simp_all

lemma replay_pts_append:
  "replay_pts ops x (a @ b) = replay_pts ops (replay_pts ops x a) b"
  by (induction ops x a rule: replay_pts.induct) simp_all

lemma update_swr_keeps:
  assumes "update_swr d io = (d', ev)"
  shows "m_videoStartClock d' = m_videoStartClock d" and "m_audioPTS d' = m_audioPTS d"
    and "lib d' = lib d" and "m_audioSettings d' = m_audioSettings d"
    and "corrections ev = []" and "writes ev = []"
    and "fp d' = fp d" and "replay_pts ops x ev = x"
  using assms by (auto simp: update_swr_def Let_def split: if_splits)

lemma update_swr_rebuilds:
  assumes "update_swr d io = (d', ev)"
  shows "rebuilds ev = (if signature (lib d) (frame io) \<noteq> cached_signature d then 1 else 0)"
    and "cached_signature d' = signature (lib d) (frame io)"
  using assms
  by (auto simp: update_swr_def swr_required_def signature_def cached_signature_def Let_def
      split: if_splits)

lemma resample_keeps:
  assumes "resample d ctx buf io = (r, d', buf', ev)"
  shows "m_videoStartClock d' = m_videoStartClock d" and "m_audioPTS d' = m_audioPTS d"
    and "lib d' = lib d" and "m_audioCurrentPref d' = m_audioCurrentPref d"
    and "corrections ev = []" and "writes ev = []" and "rebuilds ev = 0"
    and "fp d' = fp d" and "replay_pts ops x ev = x"
  using assms by (auto simp: resample_def Let_def split: if_splits)

lemma audio_sync_keeps:
  assumes "audio_sync d now = (d', ev)"
  shows "m_audioPTS d' = m_audioPTS d" and "lib d' = lib d"
    and "m_audioCurrentPref d' = m_audioCurrentPref d"
    and "writes ev = []" and "rebuilds ev = 0"
    and "fp d' = fp d" and "replay_pts ops x ev = x"
  using assms by (auto simp: audio_sync_def Let_def split: if_splits)

lemma audio_sync_correction:
  assumes "audio_sync d now = (d', ev)"
  shows "corrections ev =
           (if d_less (fp d) (lit_0_1 (fp d)) (d_fabs (fp d) (sync_delta d now))
            then [if d_less (fp d) (sync_delta d now) (d_of_int (fp d) 0)
                  then lit_0_05 (fp d) else d_neg (fp d) (lit_0_05 (fp d))]
            else [])"
    and "m_videoStartClock d' =
           (if d_less (fp d) (lit_0_1 (fp d)) (d_fabs (fp d) (sync_delta d now))
            then d_add (fp d) (m_videoStartClock d)
                   (if d_less (fp d) (sync_delta d now) (d_of_int (fp d) 0)
                    then lit_0_05 (fp d) else d_neg (fp d) (lit_0_05 (fp d)))
            else m_videoStartClock d)"
  using assms by (auto simp: audio_sync_def Let_def split: if_splits)

lemma deliver_keeps:
  assumes "deliver d io orig wd ws = (r, d', ev)"
  shows "lib d' = lib d" and "m_audioCurrentPref d' = m_audioCurrentPref d"
    and "m_videoStartClock d' = m_videoStartClock d"
    and "corrections ev = []" and "rebuilds ev = 0"
    and "fp d' = fp d" and "m_audioPTS d' = replay_pts (fp d) (m_audioPTS d) ev"
  using assms by (auto simp: deliver_def Let_def split: if_splits)

lemma before_delivery_keeps:
  assumes "before_delivery d buf io = (r, d', buf', ev)"
  shows "lib d' = lib d" and "writes ev = []" and "m_audioPTS d' = m_audioPTS d"
    and "fp d' = fp d" and "replay_pts ops x ev = x"
proof -
  obtain d1 ev1 where u: "update_swr d io = (d1, ev1)" by (cases "update_swr d io")
  note k1 = update_swr_keeps [OF u]
  have "lib d' = lib d \<and> writes ev = [] \<and> m_audioPTS d' = m_audioPTS d \<and> fp d' = fp d \<and>
        replay_pts ops x ev = x"
  proof (cases "nb_samples (frame io) \<le> 0")
    case True
    with assms show ?thesis by (simp add: before_delivery_def)
  next
    case pos: False
    show ?thesis
    proof (cases "m_audioSwrContext d1")
      case None
      obtain d3 ev3 where s: "audio_sync d1 (hires_time io) = (d3, ev3)"
        by (cases "audio_sync d1 (hires_time io)")
      from assms pos None have e: "d' = d3" "ev = ev1 @ ev3"
        by (auto simp: before_delivery_def Let_def u s)
      show ?thesis
        using audio_sync_keeps [OF s] k1 by (simp add: e writes_append replay_pts_append)
    next
      case (Some ctx)
      obtain r2 d2 b2 ev2 where rs: "resample d1 ctx buf io = (r2, d2, b2, ev2)"
        by (cases "resample d1 ctx buf io")
      note k2 = resample_keeps [OF rs]
      obtain d3 ev3 where s: "audio_sync d2 (hires_time io) = (d3, ev3)"
        by (cases "audio_sync d2 (hires_time io)")
      from assms pos Some have "(d' = d3 \<and> ev = ev1 @ ev2 @ ev3) \<or> (d' = d2 \<and> ev = ev1 @ ev2)"
        by (auto simp: before_delivery_def Let_def u rs s split: sum.splits prod.splits)
      then show ?thesis
        using audio_sync_keeps [OF s] k1 k2 by (auto simp: writes_append replay_pts_append)
    qed
  qed
  then show "lib d' = lib d" and "writes ev = []" and "m_audioPTS d' = m_audioPTS d"
    and "fp d' = fp d" and "replay_pts ops x ev = x" by blast+
qed

lemma before_delivery_reached:
  assumes "before_delivery d buf io = (Inr (wd, ws, orig), d', buf', ev)"
  shows "0 < nb_samples (frame io)"
    and "orig = av_samples_get_buffer_size (lib d) (fr_channels (frame io))
                  (nb_samples (frame io)) (fr_format (frame io))"
    and "corrections ev =
           (if d_less (fp d) (lit_0_1 (fp d)) (d_fabs (fp d) (sync_delta d (hires_time io)))
            then [if d_less (fp d) (sync_delta d (hires_time io)) (d_of_int (fp d) 0)
                  then lit_0_05 (fp d) else d_neg (fp d) (lit_0_05 (fp d))]
            else [])"
    and "m_videoStartClock d' =
           (if d_less (fp d) (lit_0_1 (fp d)) (d_fabs (fp d) (sync_delta d (hires_time io)))
            then d_add (fp d) (m_videoStartClock d)
                   (if d_less (fp d) (sync_delta d (hires_time io)) (d_of_int (fp d) 0)
                    then lit_0_05 (fp d) else d_neg (fp d) (lit_0_05 (fp d)))
            else m_videoStartClock d)"
proof -
  obtain d1 ev1 where u: "update_swr d io = (d1, ev1)" by (cases "update_swr d io")
  note k1 = update_swr_keeps [OF u]
  show pos: "0 < nb_samples (frame io)"
    using assms by (auto simp: before_delivery_def Let_def split: if_splits)
  show "orig = av_samples_get_buffer_size (lib d) (fr_channels (frame io))
                  (nb_samples (frame io)) (fr_format (frame io))"
    using assms pos
    by (auto simp: before_delivery_def Let_def u split: if_splits option.splits prod.splits sum.splits)
  have main: "\<exists>d2 ev2 d3 ev3. audio_sync d2 (hires_time io) = (d3, ev3) \<and> d' = d3 \<and>
                ev = ev1 @ ev2 @ ev3 \<and> corrections ev2 = [] \<and> fp d2 = fp d \<and>
                m_videoStartClock d2 = m_videoStartClock d \<and> m_audioPTS d2 = m_audioPTS d"
  proof (cases "m_audioSwrContext d1")
    case None
    obtain d3 ev3 where s: "audio_sync d1 (hires_time io) = (d3, ev3)"
      by (cases "audio_sync d1 (hires_time io)")
    from assms pos None have e: "d' = d3" "ev = ev1 @ [] @ ev3"
      by (auto simp: before_delivery_def Let_def u s)
    show ?thesis using s e k1 by (intro exI [of _ d1] exI [of _ "[]"] exI [of _ d3] exI [of _ ev3]) simp
  next
    case (Some ctx)
    obtain r d2 b2 ev2 where rs: "resample d1 ctx buf io = (r, d2, b2, ev2)"
      by (cases "resample d1 ctx buf io")
    note k2 = resample_keeps [OF rs]
    obtain d3 ev3 where s: "audio_sync d2 (hires_time io) = (d3, ev3)"
      by (cases "audio_sync d2 (hires_time io)")
    from assms pos Some have e: "d' = d3" "ev = ev1 @ ev2 @ ev3"
      by (auto simp: before_delivery_def Let_def u rs s split: sum.splits prod.splits)
    show ?thesis
      using s e k1 k2 by (intro exI [of _ d2] exI [of _ ev2] exI [of _ d3] exI [of _ ev3]) simp
  qed
  then obtain d2 ev2 d3 ev3 where s: "audio_sync d2 (hires_time io) = (d3, ev3)"
    and e: "d' = d3" "ev = ev1 @ ev2 @ ev3" and c2: "corrections ev2 = []"
    and k: "fp d2 = fp d" "m_videoStartClock d2 = m_videoStartClock d" "m_audioPTS d2 = m_audioPTS d"
    by blast
  have sd: "sync_delta d2 (hires_time io) = sync_delta d (hires_time io)"
    by (simp add: sync_delta_def k)
  show "corrections ev =
           (if d_less (fp d) (lit_0_1 (fp d)) (d_fabs (fp d) (sync_delta d (hires_time io)))
            then [if d_less (fp d) (sync_delta d (hires_time io)) (d_of_int (fp d) 0)
                  then lit_0_05 (fp d) else d_neg (fp d) (lit_0_05 (fp d))]
            else [])"
    using audio_sync_correction(1) [OF s] k1(5) c2
    by (simp add: e corrections_append sd k)
  show "m_videoStartClock d' =
           (if d_less (fp d) (lit_0_1 (fp d)) (d_fabs (fp d) (sync_delta d (hires_time io)))
            then d_add (fp d) (m_videoStartClock d)
                   (if d_less (fp d) (sync_delta d (hires_time io)) (d_of_int (fp d) 0)
                    then lit_0_05 (fp d) else d_neg (fp d) (lit_0_05 (fp d)))
            else m_videoStartClock d)"
    using audio_sync_correction(2) [OF s] by (simp add: e sd k)
qed

lemma before_delivery_cache:
  assumes "before_delivery d buf io = (r, d', buf', ev)" and "0 < nb_samples (frame io)"
  shows "rebuilds ev = (if signature (lib d) (frame io) \<noteq> cached_signature d then 1 else 0)"
    and "cached_signature d' = signature (lib d) (frame io)"
proof -
  obtain d1 ev1 where u: "update_swr d io = (d1, ev1)" by (cases "update_swr d io")
  note k1 = update_swr_rebuilds [OF u]
  have c1: "cached_signature d1 = signature (lib d) (frame io)" by (rule k1(2))
  have "rebuilds ev = rebuilds ev1 \<and> m_audioCurrentPref d' = m_audioCurrentPref d1"
  proof (cases "m_audioSwrContext d1")
    case None
    obtain d3 ev3 where s: "audio_sync d1 (hires_time io) = (d3, ev3)"
      by (cases "audio_sync d1 (hires_time io)")
    from assms None have e: "d' = d3" "ev = ev1 @ ev3"
      by (auto simp: before_delivery_def Let_def u s)
    show ?thesis using audio_sync_keeps [OF s] by (simp add: e rebuilds_append)
  next
    case (Some ctx)
    obtain r2 d2 b2 ev2 where rs: "resample d1 ctx buf io = (r2, d2, b2, ev2)"
      by (cases "resample d1 ctx buf io")
    note k2 = resample_keeps [OF rs]
    obtain d3 ev3 where s: "audio_sync d2 (hires_time io) = (d3, ev3)"
      by (cases "audio_sync d2 (hires_time io)")
    from assms Some have "(d' = d3 \<and> ev = ev1 @ ev2 @ ev3) \<or> (d' = d2 \<and> ev = ev1 @ ev2)"
      by (auto simp: before_delivery_def Let_def u rs s split: sum.splits prod.splits)
    then show ?thesis using audio_sync_keeps [OF s] k2 by (auto simp: rebuilds_append)
  qed
  then show "rebuilds ev = (if signature (lib d) (frame io) \<noteq> cached_signature d then 1 else 0)"
    and "cached_signature d' = signature (lib d) (frame io)"
    using k1 by (simp_all add: cached_signature_def)
qed

lemma handle_frame_split:
  assumes "handle_frame d buf io = (c, d', buf', ev)"
  obtains (left) "before_delivery d buf io = (Inl c, d', buf', ev)"
  | (delivered) wd ws orig d1 ev1 r ev2 where
      "before_delivery d buf io = (Inr (wd, ws, orig), d1, buf', ev1)"
      "deliver d1 io orig wd ws = (r, d', ev2)" "ev = ev1 @ ev2"
      "c = (case r of Inl h \<Rightarrow> ctl h ReturnFalse | Inr _ \<Rightarrow> NextFrame)"
proof -
  obtain r0 d1 b1 ev1 where b: "before_delivery d buf io = (r0, d1, b1, ev1)"
    by (cases "before_delivery d buf io")
  show thesis
  proof (cases r0)
    case (Inl c0)
    with assms b have "before_delivery d buf io = (Inl c, d', buf', ev)"
      by (simp add: handle_frame_def)
    then show thesis by (rule left)
  next
    case (Inr x)
    obtain wd ws orig where x: "x = (wd, ws, orig)" by (cases x)
    obtain r d2 ev2 where dl: "deliver d1 io orig wd ws = (r, d2, ev2)"
      by (cases "deliver d1 io orig wd ws")
    from assms b Inr x dl have "d' = d2" "buf' = b1" "ev = ev1 @ ev2"
      "c = (case r of Inl h \<Rightarrow> ctl h ReturnFalse | Inr _ \<Rightarrow> NextFrame)"
      by (auto simp: handle_frame_def split: sum.splits)
    with b Inr x dl show thesis by (intro delivered [of wd ws orig d1 ev1 r ev2]) simp_all
  qed
qed

lemma handle_frame_pts:
  assumes "handle_frame d buf io = (c, d', buf', ev)"
  shows "fp d' = fp d" and "m_audioPTS d' = replay_pts (fp d) (m_audioPTS d) ev"
proof -
  have "fp d' = fp d \<and> m_audioPTS d' = replay_pts (fp d) (m_audioPTS d) ev"
    using assms
  proof (cases rule: handle_frame_split)
    case left
    then show ?thesis using before_delivery_keeps [OF left] by simp
  next
    case (delivered wd ws orig d1 ev1 r ev2)
    show ?thesis
      using before_delivery_keeps [OF delivered(1)] deliver_keeps [OF delivered(2)]
      by (simp add: delivered(3) replay_pts_append)
  qed
  then show "fp d' = fp d" and "m_audioPTS d' = replay_pts (fp d) (m_audioPTS d) ev" by blast+
qed

lemma handle_frame_cache:
  assumes "handle_frame d buf io = (c, d', buf', ev)" and "0 < nb_samples (frame io)"
  shows "rebuilds ev = (if signature (lib d) (frame io) \<noteq> cached_signature d then 1 else 0)"
    and "cached_signature d' = signature (lib d) (frame io)"
    and "lib d' = lib d"
proof -
  have "rebuilds ev = (if signature (lib d) (frame io) \<noteq> cached_signature d then 1 else 0) \<and>
        cached_signature d' = signature (lib d) (frame io) \<and> lib d' = lib d"
    using assms(1)
  proof (cases rule: handle_frame_split)
    case left
    then show ?thesis
      using before_delivery_cache [OF left assms(2)] before_delivery_keeps [OF left] by simp
  next
    case (delivered wd ws orig d1 ev1 r ev2)
    show ?thesis
      using before_delivery_cache [OF delivered(1) assms(2)] before_delivery_keeps [OF delivered(1)]
        deliver_keeps [OF delivered(2)]
      by (simp add: delivered(3) rebuilds_append cached_signature_def)
  qed
  then show "rebuilds ev = (if signature (lib d) (frame io) \<noteq> cached_signature d then 1 else 0)"
    and "cached_signature d' = signature (lib d) (frame io)"
    and "lib d' = lib d" by blast+
qed

lemma handle_frame_skip:
  "nb_samples (frame io) \<le> 0 \<Longrightarrow> handle_frame d buf io = (NextFrame, d, buf, [])"
  by (simp add: handle_frame_def before_delivery_def)

lemma handle_frame_same_format:
  assumes "handle_frame d buf io = (c, d', buf', ev)"
    and "signature (lib d) (frame io) = cached_signature d"
  shows "rebuilds ev = 0" and "cached_signature d' = cached_signature d" and "lib d' = lib d"
proof -
  have "rebuilds ev = 0 \<and> cached_signature d' = cached_signature d \<and> lib d' = lib d"
  proof (cases "0 < nb_samples (frame io)")
    case True
    then show ?thesis using handle_frame_cache [OF assms(1) True] assms(2) by simp
  next
    case False
    then show ?thesis using assms(1) by (simp add: handle_frame_skip)
  qed
  then show "rebuilds ev = 0" and "cached_signature d' = cached_signature d" and "lib d' = lib d"
    by blast+
qed

lemma receive_frames_same_format:
  assumes "\<forall>io \<in> set ios. signature (lib d) (frame io) = cached_signature d"
  shows "rebuilds (snd (snd (snd (receive_frames d buf ios)))) = 0"
  using assms
proof (induction ios arbitrary: d buf)
  case Nil
  then show ?case by simp
next
  case (Cons io ios)
  obtain c d' buf' ev where h: "handle_frame d buf io = (c, d', buf', ev)"
    by (cases "handle_frame d buf io")
  have same: "signature (lib d) (frame io) = cached_signature d" using Cons.prems by simp
  note k = handle_frame_same_format [OF h same]
  have "\<forall>io' \<in> set ios. signature (lib d') (frame io') = cached_signature d'"
    using Cons.prems k by simp
  then have ih: "rebuilds (snd (snd (snd (receive_frames d' buf' ios)))) = 0"
    by (rule Cons.IH)
  show ?case
    using ih k(1) by (cases c) (auto simp: h rebuilds_append split: prod.splits)
qed


subsection \<open>The clock corrections\<close>

text \<open>
  C3. For every frame that reaches the audio synchronisation of line 260 (a frame with a
  positive sample count whose conversion, if there is one, did not fail), with
  \<open>delta = playbackStartClock + audioPTS - wallClockNow()\<close> as line 261 computes it in
  \<^verbatim>\<open>double\<close>: a correction of the playback start clock is made if and only if
  \<^verbatim>\<open>fabs(delta) > 0.1\<close>; it is one correction, of the literal \<^verbatim>\<open>0.05\<close> when
  \<^verbatim>\<open>delta < 0\<close> and of \<^verbatim>\<open>-0.05\<close> otherwise, and the clock becomes the \<^verbatim>\<open>double\<close>
  sum of its value and that correction; when \<^verbatim>\<open>fabs(delta) > 0.1\<close> is false, no
  correction is made and the clock keeps its value. The sum, the difference, the test and
  the literals are those of the arithmetic \<open>fp d\<close>, whatever it is.
\<close>

theorem drift_correction:
  assumes "before_delivery d buf io = (Inr x, d', buf', ev)"
    and "delta = d_sub (fp d) (d_add (fp d) (m_videoStartClock d) (m_audioPTS d)) (hires_time io)"
    and "too_far = d_less (fp d) (lit_0_1 (fp d)) (d_fabs (fp d) delta)"
    and "correction = (if d_less (fp d) delta (d_of_int (fp d) 0)
                       then lit_0_05 (fp d) else d_neg (fp d) (lit_0_05 (fp d)))"
  shows "(corrections ev \<noteq> [] \<longleftrightarrow> too_far) \<and>
         (too_far \<longrightarrow>
            corrections ev = [correction] \<and>
            m_videoStartClock d' = d_add (fp d) (m_videoStartClock d) correction) \<and>
         (\<not> too_far \<longrightarrow> corrections ev = [] \<and> m_videoStartClock d' = m_videoStartClock d)"
proof -
  obtain wd ws orig where x: "x = (wd, ws, orig)" by (cases x)
  have sd: "sync_delta d (hires_time io) = delta"
    by (simp add: sync_delta_def assms(2))
  show ?thesis
    using before_delivery_reached(3,4) [OF assms(1) [unfolded x]]
    by (simp add: sd assms(3,4))
qed

text \<open>
  The wall clock one second ahead: \<open>delta = -1\<close>, one correction of the literal
  \<^verbatim>\<open>0.05\<close>, and the clock, which was 0, has that value.
\<close>

theorem drift_correction_witness:
  "corrections (snd (snd (snd (before_delivery player 0 io_44k_late)))) =
     [3602879701896397 / 72057594037927936] \<and>
   m_videoStartClock (fst (snd (before_delivery player 0 io_44k_late))) =
     3602879701896397 / 72057594037927936"
proof -
  have r: "fst (before_delivery player 0 io_44k_late) = Inr (ResampleBuffer, 4460, 4096)"
    by (simp add: frame_defs fixture_defs fixture2_defs c_arith_defs Let_def)
  have h: "before_delivery player 0 io_44k_late =
             (Inr (ResampleBuffer, 4460, 4096), fst (snd (before_delivery player 0 io_44k_late)),
              fst (snd (snd (before_delivery player 0 io_44k_late))),
              snd (snd (snd (before_delivery player 0 io_44k_late))))"
    using tuple4 [of "before_delivery player 0 io_44k_late"] by (simp only: r)
  have dl: "(- 1::real) = d_sub (fp player) (d_add (fp player) (m_videoStartClock player)
              (m_audioPTS player)) (hires_time io_44k_late)"
    by (simp add: fixture_defs fixture2_defs)
  have tf: "True = d_less (fp player) (lit_0_1 (fp player)) (d_fabs (fp player) (- 1))"
    by (simp add: fixture_defs)
  have co: "(3602879701896397 / 72057594037927936 :: real) =
            (if d_less (fp player) (- 1) (d_of_int (fp player) 0)
             then lit_0_05 (fp player) else d_neg (fp player) (lit_0_05 (fp player)))"
    by (simp add: fixture_defs)
  have v: "m_videoStartClock player = 0" and a: "d_add (fp player) = (+)"
    by (simp_all add: fixture_defs)
  show ?thesis
    using drift_correction [OF h dl tf co] v a by simp
qed

subsection \<open>The audio clock after a delivery\<close>

text \<open>
  C6, as the specification states it: after a delivery the audio clock is advanced if and
  only if \<^verbatim>\<open>WriteAudio\<close> returned false and the frame's sample rate is positive. A frame
  of 6000 bytes with a sample rate of -48000 is written as it is, \<^verbatim>\<open>WriteAudio\<close> returns
  false, and line 279 finds the rate other than 0: the clock moves from 0 to -1/32
  although the rate is not positive.
\<close>

theorem negative_rate_moves_clock_counterexample:
  "writes (snd (snd (snd (handle_frame player 0 io_negative_rate)))) = [(FrameData 4096, 6000)] \<and>
   m_audioPTS player = 0 \<and>
   m_audioPTS (fst (snd (handle_frame player 0 io_negative_rate))) = - (1 / 32) \<and>
   \<not> (m_audioPTS (fst (snd (handle_frame player 0 io_negative_rate))) \<noteq> m_audioPTS player \<longleftrightarrow>
        \<not> write_audio_ret io_negative_rate \<and> 0 < sample_rate (frame io_negative_rate))"
  by (simp add: frame_defs fixture_defs fixture2_defs c_arith_defs Let_def)

text \<open>
  C6, amended: a frame reaches line 271 with a positive byte count and no interruption
  pending, and the divisor \<open>channels * sampleRate * bytesPerSample\<close> of line 282 fits an
  \<^verbatim>\<open>int\<close>. Then the buffer is handed to the audio player and the loop body ends
  normally; the audio clock is advanced if and only if \<^verbatim>\<open>WriteAudio\<close> returned false and
  the frame's sample rate is not 0, and then it becomes the \<^verbatim>\<open>double\<close> sum of its value
  and of the \<^verbatim>\<open>double\<close> quotient of the byte size of the frame as decoded (before any
  conversion, in the source format) by that divisor; otherwise it keeps its value.
\<close>

theorem pts_advance:
  assumes "before_delivery d buf io = (Inr (write_data, write_size, orig), d1, buf1, ev1)"
    and "0 < write_size" and "\<not> interruption_requested io"
    and "divisor = fr_channels (frame io) * sample_rate (frame io) *
                   av_get_bytes_per_sample (lib d) (fr_format (frame io))"
    and "in_int (fr_channels (frame io) * sample_rate (frame io))" and "in_int divisor"
    and "frame_clock =
           d_div (fp d)
             (d_of_int (fp d) (av_samples_get_buffer_size (lib d) (fr_channels (frame io))
                                 (nb_samples (frame io)) (fr_format (frame io))))
             (d_of_int (fp d) divisor)"
    and "advance = (\<not> write_audio_ret io \<and> sample_rate (frame io) \<noteq> 0)"
  shows "handle_frame d buf io =
           (NextFrame,
            d1\<lparr>m_audioPTS := (if advance then d_add (fp d) (m_audioPTS d) frame_clock
                               else m_audioPTS d)\<rparr>,
            buf1,
            ev1 @ WriteAudio write_data write_size #
              (if advance then [AddAudioPTS frame_clock] else []))"
proof -
  note k = before_delivery_reached [OF assms(1)] before_delivery_keeps [OF assms(1)]
  have o: "orig = av_samples_get_buffer_size (lib d) (fr_channels (frame io))
                    (nb_samples (frame io)) (fr_format (frame io))" by (rule k(2))
  have l: "lib d1 = lib d" and f: "fp d1 = fp d" and p: "m_audioPTS d1 = m_audioPTS d"
    using k by simp_all
  have same: "d1\<lparr>m_audioPTS := m_audioPTS d\<rparr> = d1" using p by simp
  have dv: "frame_clock_divisor (lib d) (frame io) = divisor"
    by (simp add: frame_clock_divisor_def assms(4))
  have "deliver d1 io orig write_data write_size =
          (Inr (),
           d1\<lparr>m_audioPTS := (if advance then d_add (fp d) (m_audioPTS d) frame_clock
                              else m_audioPTS d)\<rparr>,
           WriteAudio write_data write_size # (if advance then [AddAudioPTS frame_clock] else []))"
    using assms(2,3,5,6)
    by (simp add: deliver_def dv l f p o [symmetric] assms(7,8) same Let_def)
  then show ?thesis
    using assms(1) by (simp add: handle_frame_def)
qed

text \<open>
  A frame of 6000 bytes, stereo, 48 kHz, 2 bytes per sample, not taken at once: the clock
  advances from 0 to 6000 / 192000 = 1/32 seconds.
\<close>

theorem pts_advance_witness:
  "fst (handle_frame player 0 io_48k_busy) = NextFrame \<and>
   m_audioPTS (fst (snd (handle_frame player 0 io_48k_busy))) = 1 / 32"
proof -
  let ?b = "before_delivery player 0 io_48k_busy"
  have r: "fst ?b = Inr (FrameData 4096, 6000, 6000)"
    by (simp add: frame_defs fixture_defs fixture2_defs c_arith_defs Let_def)
  have h1: "?b = (Inr (FrameData 4096, 6000, 6000), fst (snd ?b), fst (snd (snd ?b)),
                  snd (snd (snd ?b)))"
    using tuple4 [of ?b] by (simp only: r)
  have h2: "0 < (6000::int)" by simp
  have h3: "\<not> interruption_requested io_48k_busy" by (simp add: fixture_defs fixture2_defs)
  have h4: "(192000::int) = fr_channels (frame io_48k_busy) * sample_rate (frame io_48k_busy) *
                   av_get_bytes_per_sample (lib player) (fr_format (frame io_48k_busy))"
    by (simp add: fixture_defs fixture2_defs)
  have h5: "in_int (fr_channels (frame io_48k_busy) * sample_rate (frame io_48k_busy))"
    by (simp add: fixture_defs fixture2_defs in_int_def)
  have h6: "in_int 192000" by (simp add: in_int_def)
  have h7: "(1 / 32 :: real) =
           d_div (fp player)
             (d_of_int (fp player) (av_samples_get_buffer_size (lib player)
                (fr_channels (frame io_48k_busy)) (nb_samples (frame io_48k_busy))
                (fr_format (frame io_48k_busy))))
             (d_of_int (fp player) 192000)"
    by (simp add: fixture_defs fixture2_defs)
  have h8: "True = (\<not> write_audio_ret io_48k_busy \<and> sample_rate (frame io_48k_busy) \<noteq> 0)"
    by (simp add: fixture_defs fixture2_defs)
  have p0: "d_add (fp player) (m_audioPTS player) (1 / 32) = 1 / 32"
    by (simp add: fixture_defs)
  show ?thesis
    using pts_advance [OF h1 h2 h3 h4 h5 h6 h7 h8] by (simp add: p0)
qed

subsection \<open>When the conversion context is rebuilt\<close>

text \<open>
  C7, as the specification states it: the context is rebuilt if and only if the frame's
  signature differs from the cached one or no context exists yet. The player has no
  context and its cached signature is that of the 48 kHz frame: no context is built.
\<close>

theorem rebuild_without_context_counterexample:
  "\<not> (0 < rebuilds (snd (snd (snd (handle_frame player 0 io_48k)))) \<longleftrightarrow>
        signature (lib player) (frame io_48k) \<noteq> cached_signature player \<or>
        m_audioSwrContext player = None)"
  by (simp add: frame_defs fixture_defs c_arith_defs signature_def cached_signature_def Let_def)

text \<open>
  C7, amended: the context is discarded and rebuilt if and only if the frame's signature
  (sample format, channel layout as \<^verbatim>\<open>getChannelLayout\<close> derives it, sample rate)
  differs from the cached signature, whether a context exists or not. For a frame with a
  positive sample count followed by any number of frames of its signature, the loop
  builds a context once when the first frame differs from the cached signature, and not
  at all when it does not.
\<close>

theorem rebuild_on_format_change:
  assumes "0 < nb_samples (frame io)"
    and "\<forall>io' \<in> set ios. signature (lib d) (frame io') = signature (lib d) (frame io)"
  shows "rebuilds (snd (snd (snd (receive_frames d buf (io # ios))))) =
           (if signature (lib d) (frame io) \<noteq> cached_signature d then 1 else 0)"
proof -
  obtain c d' buf' ev where h: "handle_frame d buf io = (c, d', buf', ev)"
    by (cases "handle_frame d buf io")
  note k = handle_frame_cache [OF h assms(1)]
  have "\<forall>io' \<in> set ios. signature (lib d') (frame io') = cached_signature d'"
    using assms(2) k by simp
  then have rest: "rebuilds (snd (snd (snd (receive_frames d' buf' ios)))) = 0"
    by (rule receive_frames_same_format)
  show ?thesis
    using rest k(1) by (cases c) (auto simp: h rebuilds_append split: prod.splits)
qed

text \<open>Three frames at 44.1 kHz after a cached signature of 48 kHz: one context is built.\<close>

theorem rebuild_on_format_change_witness:
  "rebuilds (snd (snd (snd (receive_frames player 0 [io_44k, io_44k, io_44k])))) = 1"
proof -
  have h1: "0 < nb_samples (frame io_44k)" by (simp add: fixture_defs)
  have h2: "\<forall>io' \<in> set [io_44k, io_44k].
              signature (lib player) (frame io') = signature (lib player) (frame io_44k)"
    by simp
  have ne: "signature (lib player) (frame io_44k) \<noteq> cached_signature player"
    by (simp add: signature_def cached_signature_def fixture_defs getChannelLayout_def)
  show ?thesis
    using rebuild_on_format_change [OF h1 h2, of 0] ne by simp
qed

text \<open>
  C8. The claim: when the context cannot be allocated or cannot be initialised, resampling
  is skipped and the frame's own bytes are handed on. The code when \<^verbatim>\<open>swr_init\<close> fails
  (line 204): the context stays allocated, so line 215 enters the conversion with a context
  that is not initialised; \<^verbatim>\<open>swr_convert\<close> fails, the loop is left by the \<^verbatim>\<open>break\<close> of
  line 245 and nothing is written. When the allocation fails, the 4096 bytes of the frame
  are written as they are.
\<close>

theorem init_failure_is_not_passed_through:
  "fst (handle_frame player 0 io_44k_init_fails) = BreakLoop \<and>
   writes (snd (snd (snd (handle_frame player 0 io_44k_init_fails)))) = [] \<and>
   SwrConvert False 1370 1024 \<in> set (snd (snd (snd (handle_frame player 0 io_44k_init_fails)))) \<and>
   writes (snd (snd (snd (handle_frame player 0 io_44k_alloc_fails)))) = [(FrameData 4096, 4096)]"
  by (simp add: frame_defs fixture_defs c_arith_defs Let_def)



subsection \<open>A packet that is not handled\<close>

lemmas thread_defs = audioParseRunnable_def first_packet_def handle_popped_def av_q2d_def
  handle_postponed_def restart_output_def on_halt_def is_exception_def handleAudioPacket_def
  switch_stream_def

lemma receive_frames_append:
  assumes "frames_pass d buf pre = Some (d1, buf1, ev1)"
  shows "receive_frames d buf (pre @ rest) =
           (case receive_frames d1 buf1 rest of (r, d2, buf2, ev2) \<Rightarrow> (r, d2, buf2, ev1 @ ev2))"
  using assms
proof (induction pre arbitrary: d buf ev1)
  case Nil
  then show ?case by (simp split: prod.splits)
next
  case (Cons io pre)
  obtain c d' buf' ev where h: "handle_frame d buf io = (c, d', buf', ev)"
    by (cases "handle_frame d buf io")
  from Cons.prems h have c: "c = NextFrame"
    by (cases c) simp_all
  from Cons.prems h c obtain ev' where
    p: "frames_pass d' buf' pre = Some (d1, buf1, ev')" and e: "ev1 = ReceiveFrame (frame io) # ev @ ev'"
    by (auto split: option.splits)
  show ?case
    using Cons.IH [OF p] by (simp add: h c e split: prod.splits)
qed

lemma receive_frames_cancelled:
  assumes "before_delivery d buf io = (Inr (wd, ws, orig), d', buf', ev)"
    and "0 < ws" and "interruption_requested io"
  shows "receive_frames d buf (io # ios) = (Inr False, d', buf', ReceiveFrame (frame io) # ev)"
proof -
  have "deliver d' io orig wd ws = (Inl None, d', [])"
    using assms(2,3) by (simp add: deliver_def)
  then have "handle_frame d buf io = (ReturnFalse, d', buf', ev)"
    using assms(1) by (simp add: handle_frame_def ctl_def)
  then show ?thesis by simp
qed


lemma handle_popped_unhandled:
  assumes "handleAudioPacket d (packet l) (resampleBuffer l) (handle_io b) =
             (Inr False, d', buf', ev)"
    and "size (packet l) \<noteq> 0"
  shows "handle_popped d l b =
           (Inl BurstBreak, d', l\<lparr>initialized := True, resampleBuffer := buf'\<rparr>,
            ev @ [PacketUnref (packet l)])"
  using assms by (simp add: handle_popped_def)

lemma handle_postponed_ignores:
  assumes "handleAudioPacket d (packet l) (resampleBuffer l) (postponed_io ps) =
             (Inr r, d', buf', ev)"
    and "handlePacketPostponed l" and "\<not> seeking_at_postponed ps"
  shows "handle_postponed d l ps =
           (Inr (), d', l\<lparr>handlePacketPostponed := False, resampleBuffer := buf'\<rparr>,
            ev @ [PacketUnref (packet l)])"
  using assms by (simp add: handle_postponed_def)

text \<open>
  C10, as stated: cancellation found pending before the delivery of a frame makes
  \<^verbatim>\<open>handleAudioPacket\<close> return false, and that ends the consumption burst. The first
  packet is popped during a seek in pause and its handling postponed; in the next round of
  the outer loop line 79 handles it, an interruption is pending at its first frame, the
  call returns false (the second frame is never received, nothing is written), line 79
  ignores the result, and the inner loop pops the next packet.
\<close>

theorem postponed_cancellation_counterexample:
  "fst (handleAudioPacket (player\<lparr>m_audioPTS := 1\<rparr>) packet_a 0
          (calls_ok [io_44k_cancel, io_44k])) = Inr False \<and>
   frames_received (snd (snd (audioParseRunnable player marker
      [pass_of [seeking_round packet_a],
       postponed_pass (calls_ok [io_44k_cancel, io_44k])
         [round_of packet_b (calls_ok []), queue_empty]]))) = [frame_44k] \<and>
   writes (snd (snd (audioParseRunnable player marker
      [pass_of [seeking_round packet_a],
       postponed_pass (calls_ok [io_44k_cancel, io_44k])
         [round_of packet_b (calls_ok []), queue_empty]]))) = [] \<and>
   pops (snd (snd (audioParseRunnable player marker
      [pass_of [seeking_round packet_a],
       postponed_pass (calls_ok [io_44k_cancel, io_44k])
         [round_of packet_b (calls_ok []), queue_empty]]))) = [packet_a, packet_b]"
  by (simp add: thread_defs frame_defs fixture_defs fixture2_defs c_arith_defs AV_NOPTS_VALUE_def
      Let_def)

text \<open>
  C10, amended. A packet is being handled (its stream is the active one or was switched
  to, the decoder took it), the loop has gone through the frames \<open>pre\<close> and the next frame
  \<open>io\<close> reaches the delivery of line 271 with a positive byte count while an interruption
  is pending. Then \<^verbatim>\<open>handleAudioPacket\<close> returns false at once: nothing of the frame is
  written and the frames \<open>ios\<close> still in the decoder are never received. At the call of
  line 125 the packet is released and the inner loop is left by the \<^verbatim>\<open>break\<close> of line
  130, whatever is in the queue. At the call of line 79, for a postponed packet, the result
  is ignored: the packet is released and the inner loop is entered.
\<close>

theorem cancellation_abandons_packet:
  assumes "switch_stream d p pio = (Inr u, d0, ev0)"
    and "0 \<le> send_packet_ret pio"
    and "received_frames pio = pre @ io # ios"
    and "frames_pass d0 buf pre = Some (d1, buf1, ev1)"
    and "before_delivery d1 buf1 io = (Inr (write_data, write_size, orig), d2, buf2, ev2)"
    and "0 < write_size" and "interruption_requested io"
    and "ev = ev0 @ [SendPacket p] @ ev1 @ ReceiveFrame (frame io) # ev2"
    and "packet l = p" and "resampleBuffer l = buf"
  shows "handleAudioPacket d p buf pio = (Inr False, d2, buf2, ev) \<and>
         writes ev2 = [] \<and>
         (size p \<noteq> 0 \<and> handle_io b = pio \<longrightarrow>
            handle_popped d l b =
              (Inl BurstBreak, d2, l\<lparr>initialized := True, resampleBuffer := buf2\<rparr>,
               ev @ [PacketUnref p])) \<and>
         (size p \<noteq> 0 \<and> handle_io b = pio \<and> initialized l \<and> popped b = Some p \<longrightarrow>
            consume d (l\<lparr>packet := stale\<rparr>) (b # bs) =
              (BurstBreak, d2, l\<lparr>resampleBuffer := buf2\<rparr>, QueuePop p # ev @ [PacketUnref p])) \<and>
         (handlePacketPostponed l \<and> \<not> seeking_at_postponed ps \<and> postponed_io ps = pio \<longrightarrow>
            handle_postponed d l ps =
              (Inr (), d2, l\<lparr>handlePacketPostponed := False, resampleBuffer := buf2\<rparr>,
               ev @ [PacketUnref p]))"
proof -
  have rf: "receive_frames d0 buf (pre @ io # ios) =
              (Inr False, d2, buf2, ev1 @ ReceiveFrame (frame io) # ev2)"
    using receive_frames_append [OF assms(4)] receive_frames_cancelled [OF assms(5,6,7)]
    by simp
  have h: "handleAudioPacket d p buf pio = (Inr False, d2, buf2, ev)"
    using assms(1,2,3) rf by (simp add: handleAudioPacket_def assms(8))
  have w: "writes ev2 = []" using before_delivery_keeps(2) [OF assms(5)] .
  have c1: "handle_popped d l b =
              (Inl BurstBreak, d2, l\<lparr>initialized := True, resampleBuffer := buf2\<rparr>,
               ev @ [PacketUnref p])"
    if "size p \<noteq> 0" and "handle_io b = pio"
    using handle_popped_unhandled [of d l b d2 buf2 ev] h that assms(9,10) by simp
  have c2: "consume d (l\<lparr>packet := stale\<rparr>) (b # bs) =
              (BurstBreak, d2, l\<lparr>resampleBuffer := buf2\<rparr>, QueuePop p # ev @ [PacketUnref p])"
    if s: "size p \<noteq> 0" and hb: "handle_io b = pio" and i: "initialized l" and pb: "popped b = Some p"
  proof -
    have lp: "l\<lparr>packet := p\<rparr> = l" using assms(9) by simp
    have li: "l\<lparr>initialized := True\<rparr> = l" using i by simp
    show ?thesis
      using c1 [OF s hb] i pb by (simp add: lp li)
  qed
  have c3: "handle_postponed d l ps =
              (Inr (), d2, l\<lparr>handlePacketPostponed := False, resampleBuffer := buf2\<rparr>,
               ev @ [PacketUnref p])"
    if "handlePacketPostponed l" and "\<not> seeking_at_postponed ps" and "postponed_io ps = pio"
    using handle_postponed_ignores [of d l ps False d2 buf2 ev] h that assms(9,10) by simp
  show ?thesis using h w c1 c2 c3 by blast
qed

text \<open>
  A packet with two frames, the interruption pending at the first: the packet is not
  handled and nothing is written; popped at line 86 it ends the burst, postponed it is
  released and the inner loop is entered.
\<close>

theorem cancellation_abandons_packet_witness:
  "fst (handleAudioPacket player packet_a 0 (calls_ok [io_44k_cancel, io_44k])) = Inr False \<and>
   writes (snd (snd (snd (before_delivery player 0 io_44k_cancel)))) = [] \<and>
   fst (handle_popped player running (round_of packet_a (calls_ok [io_44k_cancel, io_44k]))) =
     Inl BurstBreak \<and>
   fst (consume player (running\<lparr>packet := marker\<rparr>)
          [round_of packet_a (calls_ok [io_44k_cancel, io_44k]), queue_empty]) = BurstBreak \<and>
   fst (handle_postponed player (running\<lparr>handlePacketPostponed := True\<rparr>)
          (postponed_pass (calls_ok [io_44k_cancel, io_44k]) [])) = Inr ()"
proof -
  let ?pio = "calls_ok [io_44k_cancel, io_44k]"
  let ?b = "round_of packet_a ?pio"
  let ?ps = "postponed_pass ?pio []"
  let ?bd = "before_delivery player 0 io_44k_cancel"
  have h1: "switch_stream player packet_a ?pio = (Inr (), player, [])"
    by (simp add: switch_stream_def fixture_defs fixture2_defs)
  have h2: "0 \<le> send_packet_ret ?pio" by (simp add: fixture2_defs)
  have h3: "received_frames ?pio = [] @ io_44k_cancel # [io_44k]" by (simp add: fixture2_defs)
  have h4: "frames_pass player 0 [] = Some (player, 0, [])" by simp
  have r: "fst ?bd = Inr (ResampleBuffer, 4460, 4096)"
    by (simp add: frame_defs fixture_defs fixture2_defs c_arith_defs Let_def)
  have h5: "?bd = (Inr (ResampleBuffer, 4460, 4096), fst (snd ?bd), fst (snd (snd ?bd)),
                   snd (snd (snd ?bd)))"
    using tuple4 [of ?bd] by (simp only: r)
  have h6: "0 < (4460::int)" by simp
  have h7: "interruption_requested io_44k_cancel" by (simp add: fixture_defs fixture2_defs)
  have s: "size packet_a \<noteq> 0" by (simp add: fixture2_defs)
  have hb: "handle_io ?b = ?pio" and pb: "popped ?b = Some packet_a" by (simp_all add: round_of_def)
  have pp: "\<not> seeking_at_postponed ?ps" "postponed_io ?ps = ?pio"
    by (simp_all add: postponed_pass_def pass_of_def)
  have l1: "packet running = packet_a" "resampleBuffer running = 0" "initialized running"
    by (simp_all add: running_def)
  note a = cancellation_abandons_packet [OF h1 h2 h3 h4 h5 h6 h7 refl l1(1,2),
      where b = "?b" and stale = marker and bs = "[queue_empty]"]
  have l2: "packet (running\<lparr>handlePacketPostponed := True\<rparr>) = packet_a"
    "resampleBuffer (running\<lparr>handlePacketPostponed := True\<rparr>) = 0"
    "handlePacketPostponed (running\<lparr>handlePacketPostponed := True\<rparr>)"
    by (simp_all add: running_def)
  note b = cancellation_abandons_packet [OF h1 h2 h3 h4 h5 h6 h7 refl l2(1,2),
      where ps = "?ps"]
  show ?thesis
    using a b s hb pb pp l1(3) l2(3) by simp
qed



subsection \<open>The audio clock follows its events\<close>

lemma switch_stream_pts:
  assumes "switch_stream d p pio = (r, d', ev)"
  shows "fp d' = fp d" and "m_audioPTS d' = m_audioPTS d" and "replay_pts ops x ev = x"
  using assms by (auto simp: switch_stream_def Let_def split: if_splits)

lemma receive_frames_pts:
  "receive_frames d buf ios = (r, d', buf', ev) \<Longrightarrow>
     fp d' = fp d \<and> m_audioPTS d' = replay_pts (fp d) (m_audioPTS d) ev"
proof (induction ios arbitrary: d buf r d' buf' ev)
  case Nil
  then show ?case by simp
next
  case (Cons io ios)
  obtain c d1 buf1 ev1 where h: "handle_frame d buf io = (c, d1, buf1, ev1)"
    by (cases "handle_frame d buf io")
  note k = handle_frame_pts [OF h]
  show ?case
  proof (cases c)
    case NextFrame
    obtain r2 d2 buf2 ev2 where rf: "receive_frames d1 buf1 ios = (r2, d2, buf2, ev2)"
      by (cases "receive_frames d1 buf1 ios")
    from Cons.IH [OF rf] k Cons.prems show ?thesis
      by (auto simp: h NextFrame rf replay_pts_append)
  next
    case BreakLoop
    with Cons.prems k show ?thesis by (auto simp: h)
  next
    case ReturnFalse
    with Cons.prems k show ?thesis by (auto simp: h)
  next
    case (Halt x)
    with Cons.prems k show ?thesis by (auto simp: h)
  qed
qed

lemma handleAudioPacket_pts:
  assumes "handleAudioPacket d p buf pio = (r, d', buf', ev)"
  shows "fp d' = fp d \<and> m_audioPTS d' = replay_pts (fp d) (m_audioPTS d) ev"
proof -
  obtain s d1 ev1 where sw: "switch_stream d p pio = (s, d1, ev1)"
    by (cases "switch_stream d p pio")
  note k = switch_stream_pts [OF sw]
  obtain r2 d2 buf2 ev2 where
    rf: "receive_frames d1 buf (received_frames pio) = (r2, d2, buf2, ev2)"
    by (cases "receive_frames d1 buf (received_frames pio)")
  note j = receive_frames_pts [OF rf]
  show ?thesis
    using assms k j
    by (auto simp: handleAudioPacket_def sw rf replay_pts_append
        split: sum.splits option.splits if_splits)
qed

lemma first_packet_pts:
  assumes "first_packet d l b = (r, d', l', ev)"
  shows "fp d' = fp d \<and> m_audioPTS d' = replay_pts (fp d) (m_audioPTS d) ev"
  using assms by (auto simp: first_packet_def Let_def split: if_splits)

lemma handle_popped_pts:
  assumes "handle_popped d l b = (r, d', l', ev)"
  shows "fp d' = fp d \<and> m_audioPTS d' = replay_pts (fp d) (m_audioPTS d) ev"
proof -
  obtain r2 d2 buf2 ev2 where
    h: "handleAudioPacket d (packet l) (resampleBuffer l) (handle_io b) = (r2, d2, buf2, ev2)"
    by (cases "handleAudioPacket d (packet l) (resampleBuffer l) (handle_io b)")
  note k = handleAudioPacket_pts [OF h]
  show ?thesis
    using assms k
    by (auto simp: handle_popped_def Let_def h replay_pts_append split: if_splits sum.splits)
qed

lemma consume_pts:
  "consume d l bs = (e, d', l', ev) \<Longrightarrow>
     fp d' = fp d \<and> m_audioPTS d' = replay_pts (fp d) (m_audioPTS d) ev"
proof (induction bs arbitrary: d l e d' l' ev)
  case Nil
  then show ?case by simp
next
  case (Cons b bs)
  show ?case
  proof (cases "popped b")
    case None
    with Cons.prems show ?thesis by simp
  next
    case (Some p)
    define first where "first = (if \<not> initialized l then first_packet d (l\<lparr>packet := p\<rparr>) b
                 else (Inr (), d, l\<lparr>packet := p\<rparr>, []))"
    obtain r1 d1 l1 ev1 where f: "first = (r1, d1, l1, ev1)" by (cases first)
    have k1: "fp d1 = fp d \<and> m_audioPTS d1 = replay_pts (fp d) (m_audioPTS d) ev1"
    proof (cases "initialized l")
      case True
      with f show ?thesis by (simp add: first_def)
    next
      case False
      with f have "first_packet d (l\<lparr>packet := p\<rparr>) b = (r1, d1, l1, ev1)"
        by (simp add: first_def)
      then show ?thesis by (rule first_packet_pts)
    qed
    have c: "consume d l (b # bs) =
       (case first of
             (Inl e, d1, l1, ev1) \<Rightarrow> (e, d1, l1, QueuePop p # ev1)
           | (Inr _, d1, l1, ev1) \<Rightarrow>
               (case handle_popped d1 l1 b of
                  (Inl e, d2, l2, ev2) \<Rightarrow> (e, d2, l2, QueuePop p # ev1 @ ev2)
                | (Inr _, d2, l2, ev2) \<Rightarrow>
                    (case consume d2 l2 bs of
                       (e, d3, l3, ev3) \<Rightarrow> (e, d3, l3, QueuePop p # ev1 @ ev2 @ ev3))))"
      by (simp add: Some first_def)
    note prem = Cons.prems [unfolded c f]
    show ?thesis
    proof (cases r1)
      case (Inl x)
      with prem k1 show ?thesis by auto
    next
      case (Inr u)
      obtain r2 d2 l2 ev2 where h: "handle_popped d1 l1 b = (r2, d2, l2, ev2)"
        by (cases "handle_popped d1 l1 b")
      note k2 = handle_popped_pts [OF h]
      show ?thesis
      proof (cases r2)
        case (Inl x)
        with prem k1 k2 Inr show ?thesis by (auto simp: h replay_pts_append)
      next
        case r2: (Inr w)
        obtain e3 d3 l3 ev3 where n: "consume d2 l2 bs = (e3, d3, l3, ev3)"
          by (cases "consume d2 l2 bs")
        note k3 = Cons.IH [OF n]
        from prem k1 k2 k3 Inr r2 show ?thesis
          by (auto simp: h n replay_pts_append)
      qed
    qed
  qed
qed

lemma handle_postponed_pts:
  assumes "handle_postponed d l q = (r, d', l', ev)"
  shows "fp d' = fp d \<and> m_audioPTS d' = replay_pts (fp d) (m_audioPTS d) ev"
proof -
  obtain r2 d2 buf2 ev2 where
    h: "handleAudioPacket d (packet l) (resampleBuffer l) (postponed_io q) = (r2, d2, buf2, ev2)"
    by (cases "handleAudioPacket d (packet l) (resampleBuffer l) (postponed_io q)")
  note k = handleAudioPacket_pts [OF h]
  show ?thesis
    using assms k
    by (auto simp: handle_postponed_def Let_def h replay_pts_append split: if_splits sum.splits)
qed

lemma restart_output_pts:
  "fp (fst (restart_output d q)) = fp d"
  "m_audioPTS (fst (restart_output d q)) = m_audioPTS d"
  "replay_pts ops x (snd (restart_output d q)) = x"
  by (simp_all add: restart_output_def)

lemma on_halt_pts: "replay_pts ops x (snd (on_halt l h)) = x"
  by (simp add: on_halt_def)

lemma run_passes_pts:
  "run_passes d l ps = (e, d', l', ev) \<Longrightarrow>
     fp d' = fp d \<and> m_audioPTS d' = replay_pts (fp d) (m_audioPTS d) ev"
proof (induction ps arbitrary: d l e d' l' ev)
  case Nil
  then show ?case by simp
next
  case (Cons q ps)
  show ?case
  proof (cases "paused_top q \<and> \<not> seeking_top q")
    case True
    obtain e1 ev1 where oh: "on_halt l ThreadInterrupted = (e1, ev1 :: 'a event list)"
      by (cases "on_halt l ThreadInterrupted :: thread_end \<times> 'a event list")
    have k1: "replay_pts (fp d) (m_audioPTS d) ev1 = m_audioPTS d"
      using on_halt_pts [where ops = "fp d" and x = "m_audioPTS d" and l = l and h = ThreadInterrupted] by (simp add: oh)
    obtain e2 d2 l2 ev2 where n: "run_passes (d\<lparr>m_audioPaused := True\<rparr>) l ps = (e2, d2, l2, ev2)"
      by (cases "run_passes (d\<lparr>m_audioPaused := True\<rparr>) l ps")
    note k2 = Cons.IH [OF n]
    from Cons.prems True k1 k2 show ?thesis
      by (auto simp: Let_def oh n replay_pts_append split: if_splits)
  next
    case False
    then have np: "(paused_top q \<and> \<not> seeking_top q) = False" by simp
    obtain d0 ev0 where ro: "restart_output d q = (d0, ev0)" by (cases "restart_output d q")
    have k0: "fp d0 = fp d" "m_audioPTS d0 = m_audioPTS d" "\<And>x. replay_pts (fp d) x ev0 = x"
      using restart_output_pts [where d = d and q = q] by (simp_all add: ro)
    obtain r1 d1 l1 ev1 where hp: "handle_postponed d0 l q = (r1, d1, l1, ev1)"
      by (cases "handle_postponed d0 l q")
    have k1: "fp d1 = fp d" "m_audioPTS d1 = replay_pts (fp d) (m_audioPTS d) ev1"
      using handle_postponed_pts [OF hp] k0 by simp_all
    show ?thesis
    proof (cases r1)
      case (Inl h)
      obtain e2 ev2 where oh: "on_halt l1 h = (e2, ev2 :: 'a event list)"
        by (cases "on_halt l1 h :: thread_end \<times> 'a event list")
      have k2: "\<And>x. replay_pts (fp d) x ev2 = x"
        using on_halt_pts [where ops = "fp d" and l = l1 and h = h] by (simp add: oh)
      from Cons.prems k1 show ?thesis
        by (auto simp: np ro hp Inl oh k0(3) k2 replay_pts_append simp del: consume.simps)
    next
      case (Inr u)
      obtain b2 d2 l2 ev2 where cs: "consume d1 l1 (burst q) = (b2, d2, l2, ev2)"
        by (cases "consume d1 l1 (burst q)")
      have k2: "fp d2 = fp d" "m_audioPTS d2 = replay_pts (fp d) (m_audioPTS d) (ev1 @ ev2)"
        using consume_pts [OF cs] k1 by (simp_all add: replay_pts_append)
      obtain e3 ev3 where oi: "on_halt l2 ThreadInterrupted = (e3, ev3 :: 'a event list)"
        by (cases "on_halt l2 ThreadInterrupted :: thread_end \<times> 'a event list")
      have k3: "\<And>x. replay_pts (fp d) x ev3 = x"
        using on_halt_pts [where ops = "fp d" and l = l2 and h = ThreadInterrupted] by (simp add: oi)
      obtain e4 d4 l4 ev4 where n: "run_passes d2 l2 ps = (e4, d4, l4, ev4)"
        by (cases "run_passes d2 l2 ps")
      have k4: "fp d4 = fp d" "m_audioPTS d4 = replay_pts (fp d) (m_audioPTS d) (ev1 @ ev2 @ ev4)"
        using Cons.IH [OF n] k2 by (simp_all add: replay_pts_append)
      show ?thesis
      proof (cases b2)
        case BurstBreak
        from Cons.prems k2 k4 show ?thesis
          by (auto simp: np ro hp Inr cs BurstBreak oi n k0(3) k3 replay_pts_append
              simp del: consume.simps split: if_splits)
      next
        case BurstReturn
        from Cons.prems k2 show ?thesis
          by (auto simp: np ro hp Inr cs BurstReturn k0(3) replay_pts_append
              simp del: consume.simps)
      next
        case (BurstHalt h)
        obtain e5 ev5 where oh: "on_halt l2 h = (e5, ev5 :: 'a event list)"
          by (cases "on_halt l2 h :: thread_end \<times> 'a event list")
        have k5: "\<And>x. replay_pts (fp d) x ev5 = x"
          using on_halt_pts [where ops = "fp d" and l = l2 and h = h] by (simp add: oh)
        from Cons.prems k2 show ?thesis
          by (auto simp: np ro hp Inr cs BurstHalt oh k0(3) k5 replay_pts_append
              simp del: consume.simps)
      next
        case BurstOpen
        from Cons.prems k2 show ?thesis
          by (auto simp: np ro hp Inr cs BurstOpen k0(3) replay_pts_append
              simp del: consume.simps)
      qed
    qed
  qed
qed

lemma audioParseRunnable_pts:
  "m_audioPTS (fst (snd (audioParseRunnable d stale ps))) =
     replay_pts (fp d) (m_audioPTS d) (snd (snd (audioParseRunnable d stale ps)))"
proof -
  define l0 where "l0 = \<lparr>packet = stale, initialized = False,
                          handlePacketPostponed = False, resampleBuffer = 0\<rparr>"
  obtain e d' l' ev where r: "run_passes d l0 ps = (e, d', l', ev)"
    by (cases "run_passes d l0 ps")
  have g: "\<And>x. replay_pts (fp d) x
             (case e of Returned \<Rightarrow> [DeinitializeThread]
                      | Rethrown _ \<Rightarrow> [DeinitializeThread]
                      | _ \<Rightarrow> []) = x"
    by (cases e) simp_all
  show ?thesis
    using run_passes_pts [OF r]
    by (simp add: audioParseRunnable_def l0_def [symmetric] r replay_pts_append g)
qed

subsection \<open>The first packet\<close>

lemma pops_append: "pops (a @ b) = pops a @ pops b"
  by (induction a rule: pops.induct) simp_all

lemma restart_output_quiet:
  "writes (snd (restart_output d q)) = []" "pops (snd (restart_output d q)) = []"
  "m_audioStream (fst (restart_output d q)) = m_audioStream d"
  "assert_enabled (fst (restart_output d q)) = assert_enabled d"
  by (simp_all add: restart_output_def)

lemma idle_run_quiet:
  "writes (snd (idle_run d qs)) = [] \<and> pops (snd (idle_run d qs)) = [] \<and>
   m_audioStream (fst (idle_run d qs)) = m_audioStream d \<and>
   assert_enabled (fst (idle_run d qs)) = assert_enabled d \<and>
   fp (fst (idle_run d qs)) = fp d \<and>
   m_audioPTS (fst (idle_run d qs)) = m_audioPTS d \<and>
   (\<forall>x. replay_pts ops x (snd (idle_run d qs)) = x)"
proof (induction qs arbitrary: d)
  case Nil
  show ?case by simp
next
  case (Cons q qs)
  show ?case
  proof (cases "paused_top q \<and> \<not> seeking_top q")
    case True
    then show ?thesis
      using Cons.IH [of "d\<lparr>m_audioPaused := True\<rparr>"]
      by (auto simp: writes_append pops_append replay_pts_append split: prod.splits)
  next
    case False
    obtain d0 e0 where ro: "restart_output d q = (d0, e0)" by (cases "restart_output d q")
    have k: "writes e0 = []" "pops e0 = []" "m_audioStream d0 = m_audioStream d"
      "assert_enabled d0 = assert_enabled d"
      using restart_output_quiet [of d q] by (simp_all add: ro)
    have j: "fp d0 = fp d" "m_audioPTS d0 = m_audioPTS d" "\<And>x. replay_pts ops x e0 = x"
      using restart_output_pts(1,2) [where d = d and q = q]
        restart_output_pts(3) [where d = d and q = q and ops = ops]
      by (simp_all add: ro)
    from False have np: "(paused_top q \<and> \<not> seeking_top q) = False" by simp
    show ?thesis
      using Cons.IH [of d0] k j(1,2)
      by (auto simp: np ro j(3) writes_append pops_append replay_pts_append split: prod.splits)
  qed
qed

lemma idle_passes:
  assumes "\<forall>q \<in> set qs. idle_pass q" and "\<not> handlePacketPostponed l"
  shows "run_passes d l (qs @ rest) =
           (case run_passes (fst (idle_run d qs)) l rest of
              (e, d', l', ev) \<Rightarrow> (e, d', l', snd (idle_run d qs) @ ev))"
  using assms(1)
proof (induction qs arbitrary: d)
  case Nil
  show ?case by (simp split: prod.splits)
next
  case (Cons q qs)
  have iq: "idle_pass q" and rest: "\<forall>q \<in> set qs. idle_pass q" using Cons.prems by simp_all
  show ?case
  proof (cases "paused_top q \<and> \<not> seeking_top q")
    case True
    with iq have ni: "(interrupt_in_pause q \<or> wait_interrupted q) = False"
      by (simp add: idle_pass_def)
    show ?thesis
      using Cons.IH [OF rest, of "d\<lparr>m_audioPaused := True\<rparr>"] True
      by (auto simp: ni Let_def split: prod.splits)
  next
    case False
    then have np: "(paused_top q \<and> \<not> seeking_top q) = False" by simp
    from iq np obtain b bs where bq: "burst q = b # bs" and pb: "popped b = None"
      and ne: "\<not> interrupt_at_end q"
      by (auto simp: idle_pass_def split: list.splits)
    obtain d0 e0 where ro: "restart_output d q = (d0, e0)" by (cases "restart_output d q")
    have hp: "handle_postponed d0 l q = (Inr (), d0, l, [])"
      using assms(2) by (simp add: handle_postponed_def)
    have cs: "consume d0 l (burst q) = (BurstBreak, d0, l, [])"
      by (simp add: bq pb)
    show ?thesis
      using Cons.IH [OF rest, of d0] ne
      by (auto simp: np ro hp cs simp del: consume.simps split: prod.splits)
  qed
qed

lemma consume_first_without_pts:
  assumes "\<not> initialized l" and "popped b = Some p" and "pts p = AV_NOPTS_VALUE"
  shows "consume d l (b # bs) =
           ((if assert_enabled d then BurstHalt AssertionFailed else BurstReturn),
            d, l\<lparr>packet := p\<rparr>, [QueuePop p])"
  using assms by (simp add: first_packet_def)

lemma consume_first_with_pts:
  assumes "\<not> initialized l" and "popped b = Some p" and "pts p \<noteq> AV_NOPTS_VALUE"
    and "v = d_mul (fp d) (av_q2d (fp d) (m_audioStream d)) (d_of_int (fp d) (pts p))"
  shows "\<exists>e d' l' ev. consume d l (b # bs) =
           (e, d', l',
            QueuePop p # StoreAudioPTS v # AppendFrameClock (d_of_int (fp d) 0) # ev)"
proof (cases "seeking_at_init b")
  case True
  then show ?thesis using assms by (simp add: first_packet_def Let_def)
next
  case False
  define d1 where "d1 = d\<lparr>m_audioPTS := v\<rparr>"
  define l1 where "l1 = l\<lparr>packet := p\<rparr>"
  have fpk: "first_packet d l1 b =
              (Inr (), d1, l1, [StoreAudioPTS v, AppendFrameClock (d_of_int (fp d) 0)])"
    using assms False by (simp add: first_packet_def Let_def d1_def l1_def)
  obtain r d2 l2 ev2 where h: "handle_popped d1 l1 b = (r, d2, l2, ev2)"
    by (cases "handle_popped d1 l1 b")
  show ?thesis
  proof (cases r)
    case (Inl x)
    then show ?thesis using assms(1,2) h fpk by (simp add: l1_def)
  next
    case (Inr u)
    obtain e d3 l3 ev3 where c: "consume d2 l2 bs = (e, d3, l3, ev3)"
      by (cases "consume d2 l2 bs")
    show ?thesis using assms(1,2) h Inr c fpk by (simp add: l1_def)
  qed
qed

lemma first_pass_without_pts:
  assumes "\<not> (paused_top ps \<and> \<not> seeking_top ps)" and "burst ps = b # bs"
    and "popped b = Some p" and "\<not> initialized l" and "\<not> handlePacketPostponed l"
    and "pts p = AV_NOPTS_VALUE"
  shows "run_passes d l (ps # rest) =
           ((if assert_enabled d then Stopped AssertionFailed else Returned),
            fst (restart_output d ps), l\<lparr>packet := p\<rparr>,
            snd (restart_output d ps) @ [QueuePop p])"
proof -
  have np: "(paused_top ps \<and> \<not> seeking_top ps) = False" using assms(1) by simp
  obtain d0 e0 where ro: "restart_output d ps = (d0, e0)" by (cases "restart_output d ps")
  have ae: "assert_enabled d0 = assert_enabled d"
    using restart_output_quiet(4) [of d ps] by (simp add: ro)
  have hp: "handle_postponed d0 l ps = (Inr (), d0, l, [])"
    using assms(5) by (simp add: handle_postponed_def)
  have cs: "consume d0 l (burst ps) =
           ((if assert_enabled d then BurstHalt AssertionFailed else BurstReturn),
            d0, l\<lparr>packet := p\<rparr>, [QueuePop p])"
    unfolding assms(2) using consume_first_without_pts [OF assms(4,3,6), of d0 bs]
    by (simp only: ae)
  show ?thesis
    by (simp add: np ro hp cs on_halt_def is_exception_def del: consume.simps)
qed

lemma first_pass_with_pts:
  assumes "\<not> (paused_top ps \<and> \<not> seeking_top ps)" and "burst ps = b # bs"
    and "popped b = Some p" and "\<not> initialized l" and "\<not> handlePacketPostponed l"
    and "pts p \<noteq> AV_NOPTS_VALUE"
    and "v = d_mul (fp d) (av_q2d (fp d) (m_audioStream d)) (d_of_int (fp d) (pts p))"
  shows "\<exists>e d' l' ev. run_passes d l (ps # rest) =
           (e, d', l',
            snd (restart_output d ps) @
            [QueuePop p, StoreAudioPTS v, AppendFrameClock (d_of_int (fp d) 0)] @ ev)"
proof -
  have np: "(paused_top ps \<and> \<not> seeking_top ps) = False" using assms(1) by simp
  obtain d0 e0 where ro: "restart_output d ps = (d0, e0)" by (cases "restart_output d ps")
  have st: "m_audioStream d0 = m_audioStream d"
    using restart_output_quiet(3) [of d ps] by (simp add: ro)
  have f0: "fp d0 = fp d"
    using restart_output_pts(1) [of d ps] by (simp add: ro)
  have hp: "handle_postponed d0 l ps = (Inr (), d0, l, [])"
    using assms(5) by (simp add: handle_postponed_def)
  have v0: "v = d_mul (fp d0) (av_q2d (fp d0) (m_audioStream d0)) (d_of_int (fp d0) (pts p))"
    by (simp add: assms(7) st f0)
  obtain e d2 l2 ev2 where cs: "consume d0 l (burst ps) =
      (e, d2, l2, QueuePop p # StoreAudioPTS v # AppendFrameClock (d_of_int (fp d) 0) # ev2)"
    unfolding assms(2)
    using consume_first_with_pts [OF assms(4,3,6) v0, of bs] by (auto simp: f0)
  obtain e3 d3 l3 ev3 where nx: "run_passes d2 l2 rest = (e3, d3, l3, ev3)"
    by (cases "run_passes d2 l2 rest")
  obtain e4 ev4 where oh: "on_halt l2 ThreadInterrupted = (e4, ev4 :: 'a event list)"
    by (cases "on_halt l2 ThreadInterrupted :: thread_end \<times> 'a event list")
  show ?thesis
  proof (cases e)
    case BurstBreak
    then show ?thesis
      by (simp add: np ro hp cs nx oh del: consume.simps)
  next
    case BurstReturn
    then show ?thesis by (simp add: np ro hp cs del: consume.simps)
  next
    case (BurstHalt h)
    obtain e5 ev5 where "on_halt l2 h = (e5, ev5 :: 'a event list)"
      by (cases "on_halt l2 h :: thread_end \<times> 'a event list")
    with BurstHalt show ?thesis by (simp add: np ro hp cs del: consume.simps)
  next
    case BurstOpen
    then show ?thesis by (simp add: np ro hp cs del: consume.simps)
  qed
qed

text \<open>
  C5. The thread starts, goes through any number of rounds of the outer loop in which no
  packet is popped (\<open>qs\<close>), and then pops its first packet \<open>p\<close>. If \<open>p\<close> has no
  presentation time stamp, the thread function is left at once, by the \<^verbatim>\<open>return\<close> of line
  102 or, in a build that keeps \<^verbatim>\<open>assert\<close>, by the failed assertion of line 101: nothing
  follows the pop but the guard's \<^verbatim>\<open>DeinitializeThread\<close>, whatever else is in the queue,
  and the audio clock is the one the thread started with. If \<open>p\<close> has one, the pop is
  followed by the store into \<^verbatim>\<open>m_audioPTS\<close> of \<open>v\<close>, the \<^verbatim>\<open>double\<close> product of
  \<^verbatim>\<open>av_q2d(time_base)\<close> and \<^verbatim>\<open>packet.pts\<close> (whatever that \<^verbatim>\<open>double\<close> is, also for a
  time base of denominator 0), and by \<^verbatim>\<open>AppendFrameClock(0)\<close>; nothing was popped or
  written to the audio player before; and the value of \<^verbatim>\<open>m_audioPTS\<close> at the end of the
  run is \<open>v\<close> moved by the additions that follow, so the store did reach the member.
  \<^verbatim>\<open>AppendFrameClock\<close>, which is the notification, is defined in another file: the call is
  an event here.
\<close>

theorem first_packet_baseline:
  assumes "\<forall>q \<in> set qs. idle_pass q"
    and "\<not> (paused_top ps \<and> \<not> seeking_top ps)" and "burst ps = b # bs"
    and "popped b = Some p"
    and "idle = snd (idle_run d qs) @ snd (restart_output (fst (idle_run d qs)) ps)"
    and "run = audioParseRunnable d stale (qs @ ps # rest)"
    and "v = d_mul (fp d) (av_q2d (fp d) (m_audioStream d)) (d_of_int (fp d) (pts p))"
  shows "(pts p = AV_NOPTS_VALUE \<longrightarrow>
            run = ((if assert_enabled d then Stopped AssertionFailed else Returned),
                   fst (restart_output (fst (idle_run d qs)) ps),
                   [Log ''Audio thread started'', InitializeThread] @ idle @ [QueuePop p] @
                   (if assert_enabled d then [] else [DeinitializeThread])) \<and>
            m_audioPTS (fst (snd run)) = m_audioPTS d) \<and>
         (pts p \<noteq> AV_NOPTS_VALUE \<longrightarrow>
            (\<exists>ev. snd (snd run) =
               [Log ''Audio thread started'', InitializeThread] @ idle @
               [QueuePop p, StoreAudioPTS v, AppendFrameClock (d_of_int (fp d) 0)] @ ev \<and>
               m_audioPTS (fst (snd run)) = replay_pts (fp d) v ev)) \<and>
         writes idle = [] \<and> pops idle = []"
proof -
  define l0 where "l0 = \<lparr>packet = stale, initialized = False,
                          handlePacketPostponed = False, resampleBuffer = 0\<rparr>"
  define d1 where "d1 = fst (idle_run d qs)"
  have l0: "\<not> initialized l0" "\<not> handlePacketPostponed l0" by (simp_all add: l0_def)
  have q: "writes (snd (idle_run d qs)) = []" "pops (snd (idle_run d qs)) = []"
    "m_audioStream d1 = m_audioStream d" "assert_enabled d1 = assert_enabled d"
    "fp d1 = fp d" "m_audioPTS d1 = m_audioPTS d"
    "\<And>x. replay_pts (fp d) x (snd (idle_run d qs)) = x"
    using idle_run_quiet [of d qs "fp d"] by (simp_all add: d1_def)
  have rq: "\<And>x. replay_pts (fp d) x (snd (restart_output d1 ps)) = x"
    "m_audioPTS (fst (restart_output d1 ps)) = m_audioPTS d"
    using restart_output_pts(2,3) [where d = d1 and q = ps] by (simp_all add: q(6))
  have rp: "run_passes d l0 (qs @ ps # rest) =
           (case run_passes d1 l0 (ps # rest) of
              (e, d', l', ev) \<Rightarrow> (e, d', l', snd (idle_run d qs) @ ev))"
    unfolding d1_def using assms(1) l0(2) by (rule idle_passes)
  have run: "run = (case run_passes d l0 (qs @ ps # rest) of
        (e, d', l', ev) \<Rightarrow>
          (e, d',
           [Log ''Audio thread started'', InitializeThread] @ ev @
           (case e of Returned \<Rightarrow> [DeinitializeThread]
                    | Rethrown _ \<Rightarrow> [DeinitializeThread]
                    | _ \<Rightarrow> [])))"
    by (simp add: assms(6) audioParseRunnable_def l0_def)
  have idle: "idle = snd (idle_run d qs) @ snd (restart_output d1 ps)"
    by (simp add: assms(5) d1_def)
  have c1: "run = ((if assert_enabled d then Stopped AssertionFailed else Returned),
                   fst (restart_output (fst (idle_run d qs)) ps),
                   [Log ''Audio thread started'', InitializeThread] @ idle @ [QueuePop p] @
                   (if assert_enabled d then [] else [DeinitializeThread])) \<and>
            m_audioPTS (fst (snd run)) = m_audioPTS d"
    if np: "pts p = AV_NOPTS_VALUE"
    using first_pass_without_pts [OF assms(2,3,4) l0 np, of d1 rest] rq(2)
    by (simp add: run rp idle q(4) d1_def [symmetric])
  have c2: "\<exists>ev. snd (snd run) =
               [Log ''Audio thread started'', InitializeThread] @ idle @
               [QueuePop p, StoreAudioPTS v, AppendFrameClock (d_of_int (fp d) 0)] @ ev \<and>
               m_audioPTS (fst (snd run)) = replay_pts (fp d) v ev"
    if vp: "pts p \<noteq> AV_NOPTS_VALUE"
  proof -
    have v1: "v = d_mul (fp d1) (av_q2d (fp d1) (m_audioStream d1)) (d_of_int (fp d1) (pts p))"
      by (simp add: assms(7) q(3,5))
    obtain e d' l' ev where
      "run_passes d1 l0 (ps # rest) =
         (e, d', l', snd (restart_output d1 ps) @
            [QueuePop p, StoreAudioPTS v, AppendFrameClock (d_of_int (fp d) 0)] @ ev)"
      using first_pass_with_pts [OF assms(2,3,4) l0 vp v1, of rest] by (auto simp: q(5))
    then have tr: "snd (snd run) =
               [Log ''Audio thread started'', InitializeThread] @ idle @
               [QueuePop p, StoreAudioPTS v, AppendFrameClock (d_of_int (fp d) 0)] @
               (ev @ (case e of Returned \<Rightarrow> [DeinitializeThread]
                    | Rethrown _ \<Rightarrow> [DeinitializeThread]
                    | _ \<Rightarrow> []))"
      by (simp add: run rp idle)
    have "m_audioPTS (fst (snd run)) = replay_pts (fp d) (m_audioPTS d) (snd (snd run))"
      unfolding assms(6) by (rule audioParseRunnable_pts)
    then have "m_audioPTS (fst (snd run)) =
                 replay_pts (fp d) v
                   (ev @ (case e of Returned \<Rightarrow> [DeinitializeThread]
                    | Rethrown _ \<Rightarrow> [DeinitializeThread]
                    | _ \<Rightarrow> []))"
      by (simp only: tr idle replay_pts_append replay_pts.simps q(7) rq(1))
    with tr show ?thesis by blast
  qed
  have c3: "writes idle = []" "pops idle = []"
    using q(1,2) restart_output_quiet(1,2) [of d1 ps]
    by (simp_all add: idle writes_append pops_append)
  show ?thesis using c1 c2 c3 by blast
qed

text \<open>
  A pause, an empty queue, then a first packet stamped 44100 ticks of 1/44100 s whose one
  frame of 1/32 s the audio player does not take at once: the clock is set to 1 and ends at
  1 + 1/32. The same with a first packet that has no time stamp, in a build without
  \<^verbatim>\<open>assert\<close>: the function returns, and the packets behind it are never popped.
\<close>

theorem first_packet_baseline_witness:
  "take 7 (snd (snd (audioParseRunnable player marker
      ([paused_pass, pass_of [queue_empty]] @
       pass_of [round_of packet_a (calls_ok [io_48k_busy])] # [])))) =
     [Log ''Audio thread started'', InitializeThread, WaveOutPause, WaveOutRestart,
      QueuePop packet_a, StoreAudioPTS 1, AppendFrameClock 0] \<and>
   m_audioPTS (fst (snd (audioParseRunnable player marker
      ([paused_pass, pass_of [queue_empty]] @
       pass_of [round_of packet_a (calls_ok [io_48k_busy])] # [])))) =
     replay_pts exact_ops 1 (drop 7 (snd (snd (audioParseRunnable player marker
      ([paused_pass, pass_of [queue_empty]] @
       pass_of [round_of packet_a (calls_ok [io_48k_busy])] # []))))) \<and>
   m_audioPTS (fst (snd (audioParseRunnable player marker
      ([paused_pass, pass_of [queue_empty]] @
       pass_of [round_of packet_a (calls_ok [io_48k_busy])] # [])))) = 33 / 32 \<and>
   audioParseRunnable player marker
      ([paused_pass, pass_of [queue_empty]] @
       pass_of [round_of packet_nopts (calls_ok [io_48k]), round_of packet_a (calls_ok [io_48k])] #
       [pass_of [round_of packet_a (calls_ok [io_48k])]]) =
     (Returned, player,
      [Log ''Audio thread started'', InitializeThread, WaveOutPause, WaveOutRestart,
       QueuePop packet_nopts, DeinitializeThread])"
proof -
  let ?qs = "[paused_pass, pass_of [queue_empty]]"
  let ?ra = "audioParseRunnable player marker
      (?qs @ pass_of [round_of packet_a (calls_ok [io_48k_busy])] # [])"
  let ?rb = "audioParseRunnable player marker
      (?qs @
       pass_of [round_of packet_nopts (calls_ok [io_48k]), round_of packet_a (calls_ok [io_48k])] #
       [pass_of [round_of packet_a (calls_ok [io_48k])]])"
  have i1: "\<forall>q \<in> set ?qs. idle_pass q"
    by (simp add: idle_pass_def fixture2_defs)
  have i2: "\<And>bs. \<not> (paused_top (pass_of bs) \<and> \<not> seeking_top (pass_of bs))"
    by (simp add: pass_of_def)
  have i3: "\<And>b bs. burst (pass_of (b # bs)) = b # bs" by (simp add: pass_of_def)
  have i4: "\<And>p pio. popped (round_of p pio) = Some p" by (simp add: round_of_def)
  have i5: "\<And>bs. [WaveOutPause, WaveOutRestart] =
              snd (idle_run player ?qs) @ snd (restart_output (fst (idle_run player ?qs)) (pass_of bs))"
    by (simp add: restart_output_def fixture_defs fixture2_defs)
  have i7: "\<And>p. real_of_int (pts p) / 44100 =
      d_mul (fp player) (av_q2d (fp player) (m_audioStream player)) (d_of_int (fp player) (pts p))"
    by (simp add: fixture_defs av_q2d_def)
  note a = first_packet_baseline [where qs = "?qs" and d = player and stale = marker
      and ps = "pass_of [round_of packet_a (calls_ok [io_48k_busy])]" and rest = "[]"
      and p = packet_a, OF i1 i2 i3 i4 i5 refl i7]
  note b = first_packet_baseline [where qs = "?qs" and d = player and stale = marker
      and ps = "pass_of [round_of packet_nopts (calls_ok [io_48k]),
                         round_of packet_a (calls_ok [io_48k])]"
      and rest = "[pass_of [round_of packet_a (calls_ok [io_48k])]]"
      and p = packet_nopts, OF i1 i2 i3 i4 i5 refl i7]
  have va: "pts packet_a \<noteq> AV_NOPTS_VALUE"
    by (simp add: fixture2_defs AV_NOPTS_VALUE_def)
  have pv: "real_of_int (pts packet_a) / 44100 = 1" by (simp add: fixture2_defs)
  have fz: "fp player = exact_ops" "d_of_int exact_ops 0 = 0"
    by (simp_all add: fixture_defs)
  from a va obtain ev where
    tr: "snd (snd ?ra) =
     [Log ''Audio thread started'', InitializeThread] @ [WaveOutPause, WaveOutRestart] @
     [QueuePop packet_a, StoreAudioPTS 1, AppendFrameClock 0] @ ev"
    and cl: "m_audioPTS (fst (snd ?ra)) = replay_pts exact_ops 1 ev"
    unfolding pv fz by blast
  have first: "take 7 (snd (snd ?ra)) =
     [Log ''Audio thread started'', InitializeThread, WaveOutPause, WaveOutRestart,
      QueuePop packet_a, StoreAudioPTS 1, AppendFrameClock 0]"
    unfolding tr by simp
  have dr: "drop 7 (snd (snd ?ra)) = ev" unfolding tr by simp
  have clock: "m_audioPTS (fst (snd ?ra)) = replay_pts exact_ops 1 (drop 7 (snd (snd ?ra)))"
    by (simp only: dr cl)
  have val: "m_audioPTS (fst (snd ?ra)) = 33 / 32"
    by (simp add: thread_defs frame_defs fixture_defs fixture2_defs c_arith_defs
        AV_NOPTS_VALUE_def Let_def)
  have vb: "pts packet_nopts = AV_NOPTS_VALUE" by (simp add: fixture2_defs)
  have ne: "\<not> assert_enabled player" by (simp add: fixture_defs)
  have dd: "fst (restart_output (fst (idle_run player ?qs))
              (pass_of [round_of packet_nopts (calls_ok [io_48k]),
                        round_of packet_a (calls_ok [io_48k])])) = player"
    by (simp add: restart_output_def fixture_defs fixture2_defs)
  have second: "?rb =
     (Returned, player,
      [Log ''Audio thread started'', InitializeThread, WaveOutPause, WaveOutRestart,
       QueuePop packet_nopts, DeinitializeThread])"
    using b [THEN conjunct1, THEN mp, OF vb, THEN conjunct1] ne unfolding dd by simp
  show ?thesis
    using first clock val second by (simp only: simp_thms)
qed

subsection \<open>Releasing the packet\<close>

text \<open>
  C4. The claim: on every exit path of the loop that consumes packets the popped packet is
  released. The code: a packet of size 0 is popped as the first packet, line 122 leaves the
  inner loop without \<^verbatim>\<open>av_packet_unref\<close>, and the thread is interrupted at line 135; the
  handler of line 138 releases a postponed packet only. The run holds the pop and no
  release. The \<^verbatim>\<open>return\<close> of line 102 (a first packet without time stamp, no
  \<^verbatim>\<open>assert\<close>) does not release the packet it popped either. A packet that is handled is
  released (line 126).
\<close>

theorem size_zero_packet_is_not_released:
  "fst (audioParseRunnable player packet_a [pass_of [round_of marker (calls_ok [])], cancelled_pass]) =
     Rethrown ThreadInterrupted \<and>
   snd (snd (audioParseRunnable player packet_a
               [pass_of [round_of marker (calls_ok [])], cancelled_pass])) =
     [Log ''Audio thread started'', InitializeThread, QueuePop marker, StoreAudioPTS 0,
      AppendFrameClock 0, Log ''Packet size = 0'', Log ''Audio thread interrupted'',
      DeinitializeThread] \<and>
   fst (audioParseRunnable player packet_a [pass_of [round_of packet_nopts (calls_ok [])]]) =
     Returned \<and>
   snd (snd (audioParseRunnable player packet_a [pass_of [round_of packet_nopts (calls_ok [])]])) =
     [Log ''Audio thread started'', InitializeThread, QueuePop packet_nopts, DeinitializeThread] \<and>
   unrefs (snd (snd (audioParseRunnable player packet_a
               [pass_of [round_of packet_a (calls_ok [io_48k]), queue_empty], cancelled_pass]))) =
     [packet_a]"
  by (simp add: thread_defs frame_defs fixture_defs fixture2_defs c_arith_defs AV_NOPTS_VALUE_def
      Let_def)

end
